theory Spec2Isabelle
  imports Complex_Main "HOL-Library.Sublist" "HOL-Library.Log_Nat" "HOL-Library.Code_Target_Numeral"
begin

section \<open>Strings\<close>

text \<open>
  A JavaScript string is modelled as a \<^typ>\<open>string\<close> holding its UTF-8 bytes. The
  program text has two characters outside ASCII, the pound sign and the bullet. Every
  pattern of the program is ASCII, and a byte of a multi-byte character is never an ASCII
  byte, so searching the bytes finds what the regular expression finds in the code units.
\<close>

definition pound :: string where
  "pound = [CHR 0xC2, CHR 0xA3]"

definition bullet :: string where
  "bullet = [CHR 0xE2, CHR 0x80, CHR 0xA2]"

text \<open>
  \<open>toLowerCase\<close> on the letters A to Z, the bytes 0x41 to 0x5A: bit 6 set, bits 5 and
  7 clear and the low five bits a number from 1 to 26. Lower-casing sets bit 5. The program
  lower-cases the provider name only to compare it with three ASCII names, and no
  character outside ASCII lower-cases to a letter of these names, so the restriction to
  ASCII changes no comparison.
\<close>

fun lower_char :: "char \<Rightarrow> char" where
  "lower_char (Char b0 b1 b2 b3 b4 b5 b6 b7) =
     (if \<not> b7 \<and> b6 \<and> \<not> b5 \<and> (b0 \<or> b1 \<or> b2 \<or> b3 \<or> b4) \<and> \<not> (b4 \<and> b3 \<and> (b2 \<or> b1 \<and> b0))
      then Char b0 b1 b2 b3 b4 True b6 b7
      else Char b0 b1 b2 b3 b4 b5 b6 b7)"

definition toLowerCase :: "string \<Rightarrow> string" where
  "toLowerCase s = map lower_char s"

text \<open>
  \<open>/a|b|c/i.test(s)\<close>: every regular expression of the request handler is an alternation
  of literal words under the \<open>i\<close> flag and without the \<open>g\<close> flag, so the test is stateless
  and holds when one of the words occurs in \<open>s\<close>, letters compared without case.
\<close>

definition test_i :: "string list \<Rightarrow> string \<Rightarrow> bool" where
  "test_i alts s = list_ex (\<lambda>a. sublist (toLowerCase a) (toLowerCase s)) alts"

text \<open>\<open>Array.prototype.join\<close> on strings.\<close>

fun join :: "string \<Rightarrow> string list \<Rightarrow> string" where
  "join sep [] = []"
| "join sep [x] = x"
| "join sep (x # y # ys) = x @ sep @ join sep (y # ys)"

text \<open>
  \<open>s.replace(/<[^>]*>/g, '')\<close>: scanning from the left, a \<open><\<close> that has a \<open>>\<close> somewhere
  after it is removed together with everything up to the first such \<open>>\<close>; a \<open><\<close> with no
  \<open>>\<close> after it stays.
\<close>

function strip_tags :: "string \<Rightarrow> string" where
  "strip_tags [] = []"
| "strip_tags (c # cs) =
     (if c = CHR ''<'' \<and> CHR ''>'' \<in> set cs
      then strip_tags (tl (dropWhile (\<lambda>d. d \<noteq> CHR ''>'') cs))
      else c # strip_tags cs)"
  by pat_completeness auto
termination
  by (relation "measure length")
     (auto simp: less_Suc_eq_le intro: le_trans [OF diff_le_self length_dropWhile_le])

section \<open>Numbers: \<open>parseFloat\<close> and \<open>toFixed(2)\<close>\<close>

text \<open>
  A Number is a NaN, an infinity or a finite double, kept as the rational it denotes
  (the two zeros are not told apart: the program only asks whether a number is above 0).
\<close>

datatype jsnum = NaN | PosInf | NegInf | Finite rat

definition rpow :: "rat \<Rightarrow> int \<Rightarrow> rat" where
  "rpow b k = (if 0 \<le> k then b ^ nat k else 1 / b ^ nat (- k))"

text \<open>
  The binary exponent of a positive rational, \<open>2 ^ ilog2 r \<le> r < 2 ^ (ilog2 r + 1)\<close>,
  from the number of bits of \<open>\<lfloor>r\<rfloor>\<close> from 1 on and of \<open>\<lceil>1 / r\<rceil> - 1\<close> below 1.
\<close>

definition ilog2 :: "rat \<Rightarrow> int" where
  "ilog2 r =
     (if 1 \<le> r then int (floorlog 2 (nat \<lfloor>r\<rfloor>)) - 1
      else - int (floorlog 2 (nat (\<lceil>1 / r\<rceil> - 1))))"

definition round_half_even :: "rat \<Rightarrow> int" where
  "round_half_even x =
     (let f = \<lfloor>x\<rfloor>; d = x - of_int f
      in if d < 1 / 2 then f else if 1 / 2 < d then f + 1 else if even f then f else f + 1)"

text \<open>
  Rounding a real to the nearest double, ties to the even significand: 53 bits of
  significand, the smallest quantum \<open>2 ^ -1074\<close>, and infinity from \<open>2 ^ 1024\<close> on.
  With a quantum below \<open>2 ^ 971\<close> a significand of 53 bits stays below \<open>2 ^ 1024\<close>, so
  the value is compared with \<open>2 ^ 1024\<close> only from that quantum on.
\<close>

definition to_double :: "rat \<Rightarrow> jsnum" where
  "to_double r =
     (if r = 0 then Finite 0
      else let a = \<bar>r\<bar>;
               e = max (ilog2 a - 52) (- 1074);
               v = of_int (round_half_even (a / rpow 2 e)) * rpow 2 e
           in if 971 \<le> e then
                (if 2 ^ 1024 \<le> v then (if r < 0 then NegInf else PosInf)
                 else Finite (if r < 0 then - v else v))
              else Finite (if r < 0 then - v else v))"

definition is_digit :: "char \<Rightarrow> bool" where
  "is_digit c = (c \<in> set ''0123456789'')"

definition digit_val :: "char \<Rightarrow> nat" where
  "digit_val c = length (takeWhile (\<lambda>d. d \<noteq> c) ''0123456789'')"

definition digits_val :: "string \<Rightarrow> nat" where
  "digits_val ds = foldl (\<lambda>n c. 10 * n + digit_val c) 0 ds"

text \<open>The white space and line terminators that \<open>parseFloat\<close> skips, in UTF-8.\<close>

definition white_space :: "string list" where
  "white_space =
     [[CHR 0x09], [CHR 0x0A], [CHR 0x0B], [CHR 0x0C], [CHR 0x0D], [CHR 0x20],
      [CHR 0xC2, CHR 0xA0], [CHR 0xE1, CHR 0x9A, CHR 0x80],
      [CHR 0xE2, CHR 0x80, CHR 0x80], [CHR 0xE2, CHR 0x80, CHR 0x81],
      [CHR 0xE2, CHR 0x80, CHR 0x82], [CHR 0xE2, CHR 0x80, CHR 0x83],
      [CHR 0xE2, CHR 0x80, CHR 0x84], [CHR 0xE2, CHR 0x80, CHR 0x85],
      [CHR 0xE2, CHR 0x80, CHR 0x86], [CHR 0xE2, CHR 0x80, CHR 0x87],
      [CHR 0xE2, CHR 0x80, CHR 0x88], [CHR 0xE2, CHR 0x80, CHR 0x89],
      [CHR 0xE2, CHR 0x80, CHR 0x8A], [CHR 0xE2, CHR 0x80, CHR 0xA8],
      [CHR 0xE2, CHR 0x80, CHR 0xA9], [CHR 0xE2, CHR 0x80, CHR 0xAF],
      [CHR 0xE2, CHR 0x81, CHR 0x9F], [CHR 0xE3, CHR 0x80, CHR 0x80],
      [CHR 0xEF, CHR 0xBB, CHR 0xBF]]"

function trim_start :: "string \<Rightarrow> string" where
  "trim_start s =
     (case find (\<lambda>w. prefix w s) white_space of
        Some w \<Rightarrow> if w = [] then s else trim_start (drop (length w) s)
      | None \<Rightarrow> s)"
  by pat_completeness auto
termination
  by (relation "measure length") (auto simp: find_Some_iff prefix_def)

text \<open>
  The exponent of a decimal literal: \<open>e\<close> or \<open>E\<close>, an optional sign and at least one
  digit; anything else is not part of the literal and counts as exponent 0.
\<close>

definition exponent_part :: "string \<Rightarrow> int" where
  "exponent_part s =
     (case s of
        [] \<Rightarrow> 0
      | c # t \<Rightarrow>
          if c = CHR ''e'' \<or> c = CHR ''E'' then
            (case t of
               [] \<Rightarrow> 0
             | d # u \<Rightarrow>
                 if d = CHR ''+'' then int (digits_val (takeWhile is_digit u))
                 else if d = CHR ''-'' then - int (digits_val (takeWhile is_digit u))
                 else int (digits_val (takeWhile is_digit t)))
          else 0)"

text \<open>
  The longest prefix that is a \<open>StrUnsignedDecimalLiteral\<close>: \<open>Infinity\<close>, or digits with
  an optional fraction and exponent, or a fraction that starts with the point.
\<close>

definition unsigned_literal :: "string \<Rightarrow> jsnum" where
  "unsigned_literal s =
     (if prefix ''Infinity'' s then PosInf
      else let ip = takeWhile is_digit s;
               r1 = dropWhile is_digit s;
               dot = (r1 \<noteq> [] \<and> hd r1 = CHR ''.'');
               fp = (if dot then takeWhile is_digit (tl r1) else []);
               r2 = (if dot then dropWhile is_digit (tl r1) else r1)
           in if ip = [] \<and> fp = [] then NaN
              else to_double (of_nat (digits_val (ip @ fp)) *
                              rpow 10 (exponent_part r2 - int (length fp))))"

definition negate :: "jsnum \<Rightarrow> jsnum" where
  "negate x =
     (case x of NaN \<Rightarrow> NaN | PosInf \<Rightarrow> NegInf | NegInf \<Rightarrow> PosInf | Finite r \<Rightarrow> Finite (- r))"

definition parseFloat :: "string \<Rightarrow> jsnum" where
  "parseFloat s =
     (case trim_start s of
        [] \<Rightarrow> NaN
      | c # t \<Rightarrow>
          if c = CHR ''-'' then negate (unsigned_literal t)
          else if c = CHR ''+'' then unsigned_literal t
          else unsigned_literal (c # t))"

text \<open>\<open>x > 0\<close> on Numbers.\<close>

definition positive :: "jsnum \<Rightarrow> bool" where
  "positive x = (case x of PosInf \<Rightarrow> True | Finite r \<Rightarrow> 0 < r | _ \<Rightarrow> False)"

definition digit_char :: "nat \<Rightarrow> char" where
  "digit_char d = ''0123456789'' ! (d mod 10)"

function show_nat :: "nat \<Rightarrow> string" where
  "show_nat n = (if n < 10 then [digit_char n] else show_nat (n div 10) @ [digit_char n])"
  by pat_completeness auto
termination
  by (relation "measure id") auto

text \<open>
  \<open>toFixed(2)\<close> below \<open>10 ^ 21\<close>: the integer \<open>n\<close> nearest to \<open>100 * a\<close>, the larger one
  of two, written with at least three digits and a point before the last two.
\<close>

definition fixed2 :: "rat \<Rightarrow> string" where
  "fixed2 a =
     (let n = nat \<lfloor>a * 100 + 1 / 2\<rfloor>;
          m = show_nat n;
          m' = (if length m \<le> 2 then replicate (3 - length m) CHR ''0'' @ m else m);
          k = length m'
      in take (k - 2) m' @ ''.'' @ drop (k - 2) m')"

text \<open>
  From \<open>10 ^ 21\<close> on, \<open>toFixed\<close> returns the Number's default text: the shortest decimal
  that rounds to the same double (the closest one where two have that length), in
  exponent form. Such a double is an integer \<open>N\<close>.
\<close>

definition shortest_candidates :: "nat \<Rightarrow> nat \<Rightarrow> nat list" where
  "shortest_candidates N k =
     (let p = length (show_nat N) - k; s = N div 10 ^ p
      in filter (\<lambda>v. to_double (of_nat v) = Finite (of_nat N)) [s * 10 ^ p, (s + 1) * 10 ^ p])"

definition closest :: "nat \<Rightarrow> nat list \<Rightarrow> nat" where
  "closest N vs =
     (case vs of
        [] \<Rightarrow> N
      | [v] \<Rightarrow> v
      | v # w # _ \<Rightarrow> if N - v \<le> w - N then v else w)"

definition shortest_decimal :: "nat \<Rightarrow> nat" where
  "shortest_decimal N =
     (case find (\<lambda>k. shortest_candidates N k \<noteq> []) [1 ..< 18] of
        Some k \<Rightarrow> closest N (shortest_candidates N k)
      | None \<Rightarrow> N)"

definition exponential :: "nat \<Rightarrow> string" where
  "exponential N =
     (let v = show_nat (shortest_decimal N);
          ds = rev (dropWhile (\<lambda>c. c = CHR ''0'') (rev v))
      in (if length ds \<le> 1 then ds else hd ds # ''.'' @ tl ds) @
         ''e+'' @ show_nat (length v - 1))"

definition toFixed2 :: "jsnum \<Rightarrow> string" where
  "toFixed2 x =
     (case x of
        NaN \<Rightarrow> ''NaN''
      | PosInf \<Rightarrow> ''Infinity''
      | NegInf \<Rightarrow> ''-Infinity''
      | Finite r \<Rightarrow>
          (if r < 0 then ''-'' else '''') @
          (if 10 ^ 21 \<le> \<bar>r\<bar> then exponential (nat \<lfloor>\<bar>r\<bar>\<rfloor>) else fixed2 \<bar>r\<bar>))"

section \<open>Data\<close>

subsection \<open>Configuration\<close>

text \<open>
  The process environment as the chat endpoint reads it. \<open>shopify\<close> tells whether the
  Shopify client was built at start-up; a variable that is not set is \<open>None\<close>.
\<close>

record env =
  shopify :: bool
  LLM_API_KEY :: "string option"
  LLM_PROVIDER :: "string option"
  LLM_MODEL :: "string option"

text \<open>Truthiness of an environment variable or an optional string field.\<close>

definition truthy_str :: "string option \<Rightarrow> bool" where
  "truthy_str v = (case v of None \<Rightarrow> False | Some s \<Rightarrow> s \<noteq> [])"

subsection \<open>JSON values\<close>

text \<open>
  What an LLM provider sends back is any JSON value; \<open>JUndefined\<close> is the value of a
  missing property. An object lists each key once.
\<close>

datatype json =
    JUndefined
  | JNull
  | JBool bool
  | JNum rat
  | JStr string
  | JArr "json list"
  | JObj "(string \<times> json) list"

definition truthy :: "json \<Rightarrow> bool" where
  "truthy v =
     (case v of
        JUndefined \<Rightarrow> False
      | JNull \<Rightarrow> False
      | JBool b \<Rightarrow> b
      | JNum r \<Rightarrow> r \<noteq> 0
      | JStr s \<Rightarrow> s \<noteq> []
      | JArr _ \<Rightarrow> True
      | JObj _ \<Rightarrow> True)"

text \<open>
  \<open>v?.name\<close> for the property names the program reads (\<open>choices\<close>, \<open>message\<close>,
  \<open>content\<close>, \<open>text\<close>, \<open>candidates\<close>, \<open>parts\<close>): only an object can have them.
  An object is the list of its properties, each name once.
\<close>

definition get_prop :: "json \<Rightarrow> string \<Rightarrow> json" where
  "get_prop v name =
     (case v of
        JObj kvs \<Rightarrow> (case map_of kvs name of Some x \<Rightarrow> x | None \<Rightarrow> JUndefined)
      | _ \<Rightarrow> JUndefined)"

text \<open>
  \<open>v?.[0]\<close>: the first element of an array, the first unit of a string (a string again,
  from which the program only ever reads a property), the property \<open>0\<close> of an object.
\<close>

definition get_first :: "json \<Rightarrow> json" where
  "get_first v =
     (case v of
        JArr xs \<Rightarrow> (case xs of [] \<Rightarrow> JUndefined | x # _ \<Rightarrow> x)
      | JStr s \<Rightarrow> (case s of [] \<Rightarrow> JUndefined | c # _ \<Rightarrow> JStr [c])
      | JObj kvs \<Rightarrow> (case map_of kvs ''0'' of Some x \<Rightarrow> x | None \<Rightarrow> JUndefined)
      | _ \<Rightarrow> JUndefined)"

subsection \<open>The catalog\<close>

text \<open>
  Products and collections as the Shopify REST client returns them; a field that the
  program guards with \<open>?.\<close>, \<open>||\<close> or \<open>&&\<close> may be missing.
\<close>

record variant =
  variant_price :: "string option"

record product =
  title :: string
  variants :: "variant list option"
  price :: "string option"
  body_html :: "string option"

record collection =
  collection_id :: nat
  collection_title :: string

record catalog_body =
  products :: "product list option"
  custom_collections :: "collection list option"

text \<open>
  The three requests of the chat endpoint to the catalog:
  \<open>get({path: 'products', query: {limit}})\<close>, \<open>get({path: 'custom_collections'})\<close> and
  \<open>get({path: `collections/${id}/products`, query: {limit}})\<close>.
\<close>

datatype catalog_request =
    GetProducts nat
  | GetCustomCollections
  | GetCollectionProducts nat nat

subsection \<open>Errors and responses\<close>

text \<open>
  A thrown error, with the fields the handlers read: \<open>message\<close>, \<open>status\<close> and
  \<open>response\<close> with its \<open>status\<close> and \<open>body?.errors\<close>.
\<close>

record error_response =
  response_status :: "nat option"
  response_errors :: "string option"

record js_error =
  error_message :: string
  error_status :: "nat option"
  error_response :: "error_response option"

definition Error :: "string \<Rightarrow> js_error" where
  "Error msg = \<lparr>error_message = msg, error_status = None, error_response = None\<rparr>"

text \<open>
  The body of an HTTP response of the chat endpoint: \<open>{reply}\<close>, \<open>{error: text}\<close> or
  \<open>{error: {message, status, type}}\<close>, where an undefined field is left out.
\<close>

datatype body =
    Reply json
  | ErrorText string
  | ErrorObject string "nat option" "string option"

datatype response = Response nat body

fun status_of :: "response \<Rightarrow> nat" where
  "status_of (Response st b) = st"

fun body_of :: "response \<Rightarrow> body" where
  "body_of (Response st b) = b"

subsection \<open>The conversation context\<close>

record product_info =
  info_title :: string
  info_price :: string
  info_description :: string

record policies =
  shipping :: string
  returns :: string
  rewards :: string

record conversation_context =
  shopName :: string
  website :: string
  policies :: policies
  context_products :: "product_info list option"

subsection \<open>Outbound calls\<close>

datatype chat_message = Message string string

datatype llm_data =
    OpenAIData string "chat_message list" rat nat
  | AnthropicData string "chat_message list" nat rat
  | GeminiData "chat_message list" rat nat

text \<open>The configuration object given to \<open>axios\<close>; the method is always \<open>post\<close>.\<close>

record llm_request =
  url :: string
  headers :: "(string \<times> string) list"
  data :: llm_data

datatype call = LLMCall llm_request | CatalogCall catalog_request

fun is_llm_call :: "call \<Rightarrow> bool" where
  "is_llm_call (LLMCall r) = True"
| "is_llm_call (CatalogCall r) = False"

fun is_catalog_call :: "call \<Rightarrow> bool" where
  "is_catalog_call (LLMCall r) = False"
| "is_catalog_call (CatalogCall r) = True"

text \<open>
  The world outside the process, for the time of one request: what the catalog answers
  to a request (a body or a thrown error) and what the transport does with an LLM request
  (\<open>NetworkFailure\<close> when the request cannot be sent or no response arrives, or else a
  status and a body). Within one request the endpoint sends no catalog request twice, so
  a function of the request is as general as a sequence of answers. Building the REST
  client from the shop URL that start-up has parsed is taken to succeed.
\<close>

datatype transport_outcome = NetworkFailure | HttpResponse nat json

record world =
  catalog :: "catalog_request \<Rightarrow> js_error + catalog_body"
  transport :: "llm_request \<Rightarrow> transport_outcome"

text \<open>
  A computation that issues outbound calls: its result, or the error it throws, and the
  calls it issued, in order.
\<close>

type_synonym 'a io = "(js_error + 'a) \<times> call list"

definition return :: "'a \<Rightarrow> 'a io" where
  "return v = (Inr v, [])"

definition throw :: "js_error \<Rightarrow> 'a io" where
  "throw e = (Inl e, [])"

definition and_then :: "'a io \<Rightarrow> ('a \<Rightarrow> 'b io) \<Rightarrow> 'b io" where
  "and_then m f =
     (case m of
        (Inl e, cs) \<Rightarrow> (Inl e, cs)
      | (Inr v, cs) \<Rightarrow> (case f v of (r, cs') \<Rightarrow> (r, cs @ cs')))"

text \<open>\<open>try { m } catch (error) { h(error) }\<close>, for a handler that issues no call.\<close>

definition try_catch :: "'a io \<Rightarrow> (js_error \<Rightarrow> js_error + 'a) \<Rightarrow> 'a io" where
  "try_catch m h = (case m of (Inl e, cs) \<Rightarrow> (h e, cs) | (Inr v, cs) \<Rightarrow> (Inr v, cs))"

definition client_get :: "world \<Rightarrow> catalog_request \<Rightarrow> catalog_body io" where
  "client_get w req = (catalog w req, [CatalogCall req])"

text \<open>
  \<open>axios(requestConfig)\<close> with its default \<open>validateStatus\<close>: the promise resolves to the
  response on a status from 200 to 299 and rejects otherwise; \<open>response.data\<close> is what the
  program reads of a response.
\<close>

definition status_error :: "nat \<Rightarrow> js_error" where
  "status_error st =
     \<lparr>error_message = ''Request failed with status code '' @ show_nat st,
      error_status = Some st,
      error_response = Some \<lparr>response_status = Some st, response_errors = None\<rparr>\<rparr>"

definition axios :: "world \<Rightarrow> llm_request \<Rightarrow> json io" where
  "axios w req =
     (case transport w req of
        NetworkFailure \<Rightarrow> Inl (Error ''Network Error'')
      | HttpResponse st d \<Rightarrow> if 200 \<le> st \<and> st < 300 then Inr d else Inl (status_error st),
      [LLMCall req])"

section \<open>The LLM invoker\<close>

text \<open>\<open>v || d\<close> for an optional string \<open>v\<close>.\<close>

definition or_default :: "string option \<Rightarrow> string \<Rightarrow> string" where
  "or_default v d = (case v of None \<Rightarrow> d | Some s \<Rightarrow> if s = [] then d else s)"

subsection \<open>\<open>JSON.stringify(context)\<close>\<close>

definition hex_digit :: "nat \<Rightarrow> char" where
  "hex_digit k = ''0123456789abcdef'' ! (k mod 16)"

definition json_escape :: "char \<Rightarrow> string" where
  "json_escape c =
     (let n = of_char c :: nat
      in if c = CHR 0x22 then [CHR 0x5C, CHR 0x22]
         else if c = CHR 0x5C then [CHR 0x5C, CHR 0x5C]
         else if n = 8 then [CHR 0x5C, CHR ''b'']
         else if n = 9 then [CHR 0x5C, CHR ''t'']
         else if n = 10 then [CHR 0x5C, CHR ''n'']
         else if n = 12 then [CHR 0x5C, CHR ''f'']
         else if n = 13 then [CHR 0x5C, CHR ''r'']
         else if n < 32 then [CHR 0x5C, CHR ''u'', CHR ''0'', CHR ''0'', hex_digit (n div 16), hex_digit n]
         else [c])"

definition json_quote :: "string \<Rightarrow> string" where
  "json_quote s = [CHR 0x22] @ concat (map json_escape s) @ [CHR 0x22]"

definition json_field :: "string \<Rightarrow> string \<Rightarrow> string" where
  "json_field name text = json_quote name @ '':'' @ text"

definition json_object :: "string list \<Rightarrow> string" where
  "json_object members = ''{'' @ join '','' members @ ''}''"

definition stringify_product_info :: "product_info \<Rightarrow> string" where
  "stringify_product_info i =
     json_object
       [json_field ''title'' (json_quote (info_title i)),
        json_field ''price'' (json_quote (info_price i)),
        json_field ''description'' (json_quote (info_description i))]"

definition stringify_context :: "conversation_context \<Rightarrow> string" where
  "stringify_context ctx =
     json_object
       ([json_field ''shopName'' (json_quote (shopName ctx)),
         json_field ''website'' (json_quote (website ctx)),
         json_field ''policies''
           (json_object
              [json_field ''shipping'' (json_quote (shipping (policies ctx))),
               json_field ''returns'' (json_quote (returns (policies ctx))),
               json_field ''rewards'' (json_quote (rewards (policies ctx)))])] @
        (case context_products ctx of
           None \<Rightarrow> []
         | Some ps \<Rightarrow>
             [json_field ''products'' (''['' @ join '','' (map stringify_product_info ps) @ '']'')]))"

subsection \<open>Building the request\<close>

definition systemMessage :: "conversation_context \<Rightarrow> string" where
  "systemMessage ctx =
     ''You are a helpful shopping assistant for Iris Essentials. '' @
     ''Use the following context to answer the customer's question: '' @
     stringify_context ctx"

definition with_question :: "conversation_context \<Rightarrow> string \<Rightarrow> string" where
  "with_question ctx userMessage =
     systemMessage ctx @ ''\<newline>\<newline>Customer question: '' @ userMessage"

definition openai_request :: "string option \<Rightarrow> string \<Rightarrow> string \<Rightarrow> conversation_context \<Rightarrow> llm_request" where
  "openai_request model apiKey userMessage ctx =
     \<lparr>url = ''https://api.openai.com/v1/chat/completions'',
      headers = [(''Authorization'', ''Bearer '' @ apiKey), (''Content-Type'', ''application/json'')],
      data = OpenAIData (or_default model ''gpt-3.5-turbo'')
               [Message ''system'' (systemMessage ctx), Message ''user'' userMessage]
               (7 / 10) 500\<rparr>"

definition anthropic_request :: "string option \<Rightarrow> string \<Rightarrow> string \<Rightarrow> conversation_context \<Rightarrow> llm_request" where
  "anthropic_request model apiKey userMessage ctx =
     \<lparr>url = ''https://api.anthropic.com/v1/messages'',
      headers = [(''x-api-key'', apiKey), (''Content-Type'', ''application/json''),
                 (''anthropic-version'', ''2023-06-01'')],
      data = AnthropicData (or_default model ''claude-3-sonnet-20240229'')
               [Message ''user'' (with_question ctx userMessage)] 500 (7 / 10)\<rparr>"

definition gemini_request :: "string option \<Rightarrow> string \<Rightarrow> string \<Rightarrow> conversation_context \<Rightarrow> llm_request" where
  "gemini_request model apiKey userMessage ctx =
     (let modelIdentifier = or_default model ''gemini-pro'';
          geminiHeaders = [(''Content-Type'', ''application/json'')];
          (geminiUrl, geminiHeaders) =
            (if modelIdentifier = ''gemini-pro''
             then (''https://generativelanguage.googleapis.com/v1/models/'' @ modelIdentifier @
                   '':generateContent'',
                   geminiHeaders @ [(''x-goog-api-key'', apiKey)])
             else (''https://generativelanguage.googleapis.com/v1beta/models/'' @ modelIdentifier @
                   '':generateContent?key='' @ apiKey,
                   geminiHeaders))
      in \<lparr>url = geminiUrl,
          headers = geminiHeaders,
          data = GeminiData [Message ''user'' (with_question ctx userMessage)] (7 / 10) 500\<rparr>)"

text \<open>
  The request for a provider name, or \<open>None\<close> for a name that is none of the three
  (where the source returns \<open>null\<close> before any call).
\<close>

definition requestConfig ::
  "string \<Rightarrow> string option \<Rightarrow> string \<Rightarrow> string \<Rightarrow> conversation_context \<Rightarrow> llm_request option" where
  "requestConfig provider model apiKey userMessage ctx =
     (if provider = ''openai'' then Some (openai_request model apiKey userMessage ctx)
      else if provider = ''anthropic'' then Some (anthropic_request model apiKey userMessage ctx)
      else if provider = ''gemini'' then Some (gemini_request model apiKey userMessage ctx)
      else None)"

subsection \<open>Reading the reply\<close>

definition extract_reply :: "string \<Rightarrow> json \<Rightarrow> json" where
  "extract_reply provider response_data =
     (if provider = ''openai''
      then get_prop (get_prop (get_first (get_prop response_data ''choices'')) ''message'') ''content''
      else if provider = ''anthropic''
      then get_prop (get_first (get_prop response_data ''content'')) ''text''
      else if provider = ''gemini''
      then (let candidate = get_first (get_prop response_data ''candidates'');
                content = get_prop candidate ''content'';
                part = get_first (get_prop content ''parts'')
            in get_prop part ''text'')
      else JNull)"

subsection \<open>\<open>callLLM\<close>\<close>

text \<open>
  The body of the \<open>try\<close> block, entered with both variables set. Writing to the console
  is not modelled.
\<close>

definition llm_attempt :: "env \<Rightarrow> world \<Rightarrow> string \<Rightarrow> string \<Rightarrow> string \<Rightarrow> conversation_context \<Rightarrow> json io" where
  "llm_attempt e w llm_provider apiKey prompt ctx =
     (let provider = toLowerCase llm_provider
      in case requestConfig provider (LLM_MODEL e) apiKey prompt ctx of
           None \<Rightarrow> return JNull
         | Some config \<Rightarrow>
             and_then (axios w config) (\<lambda>response_data. return (extract_reply provider response_data)))"

definition callLLM :: "env \<Rightarrow> world \<Rightarrow> string \<Rightarrow> conversation_context \<Rightarrow> json io" where
  "callLLM e w prompt ctx =
     (case (LLM_API_KEY e, LLM_PROVIDER e) of
        (Some apiKey, Some llm_provider) \<Rightarrow>
          if apiKey = [] \<or> llm_provider = [] then return JNull
          else try_catch (llm_attempt e w llm_provider apiKey prompt ctx) (\<lambda>error. Inr JNull)
      | _ \<Rightarrow> return JNull)"

section \<open>The chat endpoint\<close>

subsection \<open>Query flags\<close>

record query_flags =
  isProductQuery :: bool
  isSpecificProductQuery :: bool
  isGoldEyeMaskQuery :: bool
  isRewardsQuery :: bool
  isFaqQuery :: bool
  isRefundQuery :: bool
  isShippingQuery :: bool
  isPrivacyQuery :: bool
  isTermsQuery :: bool
  isContactQuery :: bool
  isSocialMediaQuery :: bool

definition product_words :: "string list" where
  "product_words = [''product'', ''item'', ''merchandise'', ''goods'', ''buy'', ''purchase'', ''order'']"

definition query_flags :: "string \<Rightarrow> query_flags" where
  "query_flags message =
     \<lparr>isProductQuery = test_i product_words message,
      isSpecificProductQuery =
        test_i [''7-in-1 LED'', ''LED Light Therapy'', ''Light Therapy Device'', ''Youthful Skin''] message,
      isGoldEyeMaskQuery =
        test_i [''24K Gold Eye Mask'', ''Gold Eye Mask'', ''Eye Mask'', ''Puffiness'', ''Wrinkle Relief'']
          message,
      isRewardsQuery = test_i [''reward'', ''loyalty'', ''points'', ''program'', ''earn'', ''redeem''] message,
      isFaqQuery = test_i [''faq'', ''question'', ''frequently asked''] message,
      isRefundQuery = test_i [''refund'', ''return'', ''exchange'', ''money back''] message,
      isShippingQuery = test_i [''shipping'', ''delivery'', ''postage'', ''send'', ''track''] message,
      isPrivacyQuery = test_i [''privacy'', ''data'', ''information'', ''collect'', ''cookie''] message,
      isTermsQuery = test_i [''terms'', ''conditions'', ''service'', ''legal''] message,
      isContactQuery = test_i [''contact'', ''support'', ''help'', ''email'', ''phone'', ''call''] message,
      isSocialMediaQuery =
        test_i [''social'', ''media'', ''facebook'', ''instagram'', ''twitter'', ''tiktok'', ''follow'']
          message\<rparr>"

subsection \<open>The fixed texts\<close>

definition faq_reply :: string where
  "faq_reply =
     ''You can find answers to frequently asked questions on our FAQ page: '' @
     ''https://irisessentials.com/pages/faqs\<newline>\<newline>'' @
     ''Some common questions include:\<newline>'' @ bullet @
     '' How do I track my order?\<newline>'' @ bullet @
     '' What payment methods do you accept?\<newline>'' @ bullet @
     '' Are your products cruelty-free?\<newline>'' @ bullet @
     '' How can I join the rewards program?\<newline>\<newline>'' @
     ''Is there something specific you'd like to know?''"

definition refund_reply :: string where
  "refund_reply =
     ''Our refund policy includes:\<newline>\<newline>'' @ bullet @
     '' 30-day return window from delivery date\<newline>'' @ bullet @
     '' Items must be unused, unworn, and in original packaging\<newline>'' @ bullet @
     '' Original receipt or proof of purchase required\<newline>'' @ bullet @
     '' Refunds processed to original payment method within 5-7 business '' @
     ''days\<newline>'' @ bullet @
     '' Return shipping costs are the customer's responsibility\<newline>'' @ bullet @
     '' Sale items can only be exchanged for store credit\<newline>\<newline>'' @
     ''For more details: https://irisessentials.com/policies/refund-policy''"

definition shipping_reply :: string where
  "shipping_reply =
     ''Our shipping policy details:\<newline>\<newline>'' @ bullet @
     '' Standard UK Delivery (3-5 business days): FREE on orders over '' @ pound @
     ''50, otherwise '' @ pound @ ''3.99\<newline>'' @ bullet @
     '' Express UK Delivery (1-2 business days): '' @ pound @ ''6.99\<newline>'' @ bullet @
     '' International shipping available to EU, US, Canada, and Australia\<newline>'' @
     bullet @ '' International delivery takes 7-14 business days\<newline>'' @ bullet @
     '' All orders receive tracking information via email\<newline>'' @ bullet @
     '' We're not responsible for customs fees on international orders\<newline>'' @ bullet @
     '' Free returns within the UK within 30 days\<newline>\<newline>'' @
     ''More info: https://irisessentials.com/policies/shipping-policy''"

definition privacy_reply :: string where
  "privacy_reply =
     ''Our privacy policy key points:\<newline>\<newline>'' @ bullet @
     '' We collect personal information (name, email, address) only for processing '' @
     ''orders\<newline>'' @ bullet @
     '' Payment information is securely processed through Shopify Payments\<newline>'' @
     bullet @ '' We use cookies to enhance browsing experience and analyze site '' @
     ''traffic\<newline>'' @ bullet @
     '' We never sell your personal information to third parties\<newline>'' @ bullet @
     '' Marketing emails include an unsubscribe option\<newline>'' @ bullet @
     '' You can request access to your personal data or deletion at any '' @
     ''time\<newline>'' @ bullet @
     '' We use industry-standard security measures to protect your '' @
     ''data\<newline>\<newline>'' @
     ''Full policy: https://irisessentials.com/policies/privacy-policy''"

definition terms_reply :: string where
  "terms_reply =
     ''Our Terms of Service highlights:\<newline>\<newline>'' @ bullet @
     '' You must be at least 18 years old to make a purchase\<newline>'' @ bullet @
     '' Creating an account requires accurate and complete information\<newline>'' @ bullet @
     '' Product images are representative, slight variations may occur\<newline>'' @ bullet @
     '' We reserve the right to refuse service to anyone\<newline>'' @ bullet @
     '' Prices are subject to change without notice\<newline>'' @ bullet @
     '' We are not liable for delivery delays due to shipping carriers\<newline>'' @ bullet @
     '' Intellectual property (images, logos, content) belongs to Iris '' @
     ''Essentials\<newline>'' @ bullet @
     '' User-generated content may be used for marketing with '' @
     ''permission\<newline>\<newline>'' @
     ''Complete terms: https://irisessentials.com/policies/terms-of-service''"

definition contact_reply :: string where
  "contact_reply =
     ''You can contact our customer support team through:\<newline>'' @ bullet @
     '' Email: contact@irisessentials.com\<newline>'' @ bullet @
     '' Phone: +447463084372 (Mon-Fri, 9am-5pm GMT)\<newline>'' @ bullet @
     '' Contact form: https://irisessentials.com/pages/contact\<newline>\<newline>'' @
     ''We aim to respond to all inquiries within 24 hours.''"

definition social_reply :: string where
  "social_reply =
     ''Follow us on social media to stay updated with our latest products and '' @
     ''promotions:\<newline>'' @ bullet @ '' Instagram: @iris_essentials\<newline>'' @ bullet @
     '' Facebook: @IrisEssentialsOfficial\<newline>'' @ bullet @
     '' TikTok: @iris_essentials\<newline>'' @ bullet @
     '' Pinterest: @irisessentials\<newline>\<newline>'' @
     ''We love seeing our products in action! Tag us using #IrisEssentials''"

definition rewards_reply :: string where
  "rewards_reply =
     ''Our Iris Rewards program lets you earn points with every purchase! Here's how '' @
     ''it works:\<newline>\<newline>'' @ bullet @ '' Earn 1 point for every '' @ pound @
     ''1 spent\<newline>'' @ bullet @ '' 500 points = '' @ pound @ ''5 reward\<newline>'' @
     bullet @ '' 1000 points = '' @ pound @ ''10 reward\<newline>'' @ bullet @
     '' 2000 points = '' @ pound @ ''20 reward\<newline>\<newline>'' @
     ''You can also earn points by:\<newline>'' @ bullet @
     '' Creating an account: 100 points\<newline>'' @ bullet @
     '' Following us on Instagram: 50 points\<newline>'' @ bullet @
     '' Celebrating your birthday: 100 points\<newline>'' @ bullet @
     '' Referring a friend: 200 points\<newline>\<newline>'' @
     ''Learn more at: https://irisessentials.com/pages/rewards-program''"

definition specific_product_reply :: string where
  "specific_product_reply =
     ''**7-in-1 LED Light Therapy Device for Youthful Skin Care**\<newline>\<newline>'' @
     ''Price: '' @ pound @ ''89.99\<newline>\<newline>'' @
     ''This advanced skincare device uses 7 different LED light wavelengths to '' @
     ''target various skin concerns:\<newline>\<newline>'' @ bullet @
     '' Red light: Stimulates collagen production\<newline>'' @ bullet @
     '' Blue light: Treats acne and prevents breakouts\<newline>'' @ bullet @
     '' Green light: Reduces pigmentation and evens skin tone\<newline>'' @ bullet @
     '' Yellow light: Reduces redness and inflammation\<newline>'' @ bullet @
     '' Purple light: Detoxifies skin and improves lymphatic flow\<newline>'' @ bullet @
     '' Cyan light: Soothes sensitive skin\<newline>'' @ bullet @
     '' White light: Penetrates deeply for overall rejuvenation\<newline>\<newline>'' @
     ''The device is rechargeable, FDA-approved, and clinically tested. Use for just '' @
     ''10 minutes daily to see visible results within 4-6 weeks.\<newline>\<newline>'' @
     ''Would you like to know more about this product or other skincare devices we '' @
     ''offer?''"

definition default_reply :: string where
  "default_reply =
     ''I'm here to help you with information about our products, rewards program, '' @
     ''shipping, returns, and more. What would you like to know? I can provide '' @
     ''details about our policies, not just links.''"

definition policy_shipping :: string where
  "policy_shipping =
     ''Standard UK Delivery (3-5 business days): FREE on orders over '' @ pound @
     ''50, otherwise '' @ pound @ ''3.99. Express UK Delivery (1-2 business days): '' @ pound @
     ''6.99.''"

definition policy_returns :: string where
  "policy_returns =
     ''30-day return window from delivery date. Items must be unused and in original '' @
     ''packaging.''"

definition policy_rewards :: string where
  "policy_rewards =
     ''Earn 1 point for every '' @ pound @ ''1 spent. 500 points = '' @ pound @ ''5 reward.''"

subsection \<open>The context for the LLM\<close>

definition base_context :: conversation_context where
  "base_context =
     \<lparr>shopName = ''Iris Essentials'',
      website = ''https://irisessentials.com'',
      policies = \<lparr>shipping = policy_shipping, returns = policy_returns, rewards = policy_rewards\<rparr>,
      context_products = None\<rparr>"

text \<open>
  One entry of \<open>context.products\<close>. \<open>p.variants[0]\<close> throws a TypeError when the product
  has no \<open>variants\<close> array: that is \<open>None\<close>.
\<close>

definition product_info :: "product \<Rightarrow> product_info option" where
  "product_info p =
     (case variants p of
        None \<Rightarrow> None
      | Some vs \<Rightarrow>
          Some \<lparr>info_title = title p,
                info_price =
                  or_default (case vs of [] \<Rightarrow> None | v # _ \<Rightarrow> variant_price v) ''Price not available'',
                info_description = or_default (map_option strip_tags (body_html p)) ''No description''\<rparr>)"

text \<open>
  \<open>response.body.products.map(...)\<close>: a TypeError when \<open>products\<close> is missing or when the
  callback throws on one of the products.
\<close>

definition products_snapshot :: "catalog_body \<Rightarrow> product_info list option" where
  "products_snapshot b =
     (case products b of
        None \<Rightarrow> None
      | Some ps \<Rightarrow> those (map product_info ps))"

text \<open>
  The context, with the products fetched when the message is about products. The inner
  \<open>try\<close> catches both a failed fetch and a TypeError of the mapping: the context then has
  no \<open>products\<close>. The fetch is an outbound call either way.
\<close>

definition build_context :: "world \<Rightarrow> string \<Rightarrow> conversation_context \<times> call list" where
  "build_context w message =
     (if test_i product_words message
      then (case catalog w (GetProducts 10) of
              Inl error \<Rightarrow> base_context
            | Inr b \<Rightarrow>
                (case products_snapshot b of
                   None \<Rightarrow> base_context
                 | Some infos \<Rightarrow> base_context\<lparr>context_products := Some infos\<rparr>),
            [CatalogCall (GetProducts 10)])
      else (base_context, []))"

subsection \<open>The product listing\<close>

definition ok :: "string \<Rightarrow> response io" where
  "ok text = return (Response 200 (Reply (JStr text)))"

text \<open>\<open>v.price && parseFloat(v.price) > 0\<close>\<close>

definition valid_price :: "string option \<Rightarrow> bool" where
  "valid_price v = (case v of None \<Rightarrow> False | Some s \<Rightarrow> s \<noteq> [] \<and> positive (parseFloat s))"

definition currency :: "string \<Rightarrow> string" where
  "currency s = pound @ toFixed2 (parseFloat s)"

definition format_price :: "product \<Rightarrow> string" where
  "format_price p =
     (let price0 = ''Price not available'';
          price1 =
            (case variants p of
               None \<Rightarrow> price0
             | Some vs \<Rightarrow>
                 if 0 < length vs then
                   (case find (\<lambda>v. valid_price (variant_price v)) vs of
                      Some variantWithPrice \<Rightarrow>
                        (case variant_price variantWithPrice of Some s \<Rightarrow> currency s | None \<Rightarrow> price0)
                    | None \<Rightarrow> price0)
                 else price0)
      in if price1 = ''Price not available'' \<and> valid_price (price p)
         then (case price p of Some s \<Rightarrow> currency s | None \<Rightarrow> price1)
         else price1)"

definition product_line :: "product \<Rightarrow> string" where
  "product_line p = bullet @ '' '' @ title p @ '': '' @ format_price p"

definition productList :: "product list \<Rightarrow> string" where
  "productList ps = join ''\<newline>'' (map product_line ps)"

text \<open>
  The collection that the message asks for: \<open>collectionId\<close> (\<open>None\<close> for \<open>null\<close>) and
  \<open>collectionName\<close>, from the first collection whose title matches.
\<close>

definition beautyCollectionQuery :: "string \<Rightarrow> bool" where
  "beautyCollectionQuery message =
     test_i [''beauty'', ''beauty essentials'', ''skincare'', ''makeup'', ''cosmetic''] message"

definition kitchenCollectionQuery :: "string \<Rightarrow> bool" where
  "kitchenCollectionQuery message = test_i [''kitchen'', ''cooking'', ''culinary'', ''baking''] message"

definition pick_collection :: "string \<Rightarrow> collection list \<Rightarrow> nat option \<times> string" where
  "pick_collection message collections =
     (if beautyCollectionQuery message then
        (case find (\<lambda>c. test_i [''beauty'', ''beauty essentials''] (collection_title c)) collections of
           Some beautyCollection \<Rightarrow> (Some (collection_id beautyCollection), collection_title beautyCollection)
         | None \<Rightarrow> (None, []))
      else if kitchenCollectionQuery message then
        (case find (\<lambda>c. test_i [''kitchen'', ''kitchen essentials''] (collection_title c)) collections of
           Some kitchenCollection \<Rightarrow> (Some (collection_id kitchenCollection), collection_title kitchenCollection)
         | None \<Rightarrow> (None, []))
      else (None, []))"

definition find_collection :: "world \<Rightarrow> string \<Rightarrow> (nat option \<times> string) io" where
  "find_collection w message =
     (if beautyCollectionQuery message \<or> kitchenCollectionQuery message
      then and_then (client_get w GetCustomCollections)
             (\<lambda>b. return (pick_collection message
                             (case custom_collections b of None \<Rightarrow> [] | Some cs \<Rightarrow> cs)))
      else return (None, []))"

text \<open>Truthiness of \<open>collectionId\<close>: a number other than 0.\<close>

definition truthy_id :: "nat option \<Rightarrow> bool" where
  "truthy_id i = (case i of None \<Rightarrow> False | Some n \<Rightarrow> n \<noteq> 0)"

definition fetch_products :: "world \<Rightarrow> nat option \<Rightarrow> product list io" where
  "fetch_products w collectionId =
     and_then
       (case collectionId of
          Some i \<Rightarrow> if i \<noteq> 0 then client_get w (GetCollectionProducts i 5) else client_get w (GetProducts 5)
        | None \<Rightarrow> client_get w (GetProducts 5))
       (\<lambda>b. return (case products b of None \<Rightarrow> [] | Some ps \<Rightarrow> ps))"

definition empty_reply :: "nat option \<Rightarrow> string \<Rightarrow> string" where
  "empty_reply collectionId collectionName =
     (if truthy_id collectionId
      then ''I couldn't find any products in the '' @ collectionName @
           '' collection. Please check back later.''
      else ''I couldn't find any products in the store. Please check back later.'')"

definition listing_reply :: "nat option \<Rightarrow> string \<Rightarrow> product list \<Rightarrow> string" where
  "listing_reply collectionId collectionName ps =
     (if truthy_id collectionId
      then ''Here are some products from our '' @ collectionName @ '' collection:\<newline>\<newline>'' @
           productList ps @
           ''\<newline>\<newline>Would you like more information about any of these products?''
      else ''Here are some products from our store:\<newline>\<newline>'' @ productList ps @
           ''\<newline>\<newline>Would you like more information about any of these products?'')"

definition product_query :: "world \<Rightarrow> string \<Rightarrow> response io" where
  "product_query w message =
     and_then (find_collection w message)
       (\<lambda>(collectionId, collectionName).
          and_then (fetch_products w collectionId)
            (\<lambda>ps. if length ps = 0 then ok (empty_reply collectionId collectionName)
                   else ok (listing_reply collectionId collectionName ps)))"

subsection \<open>The rule-based replies\<close>

text \<open>
  The chain of branches on the flags, in the order of the source. No branch reads
  \<open>isGoldEyeMaskQuery\<close>.
\<close>

definition respond :: "world \<Rightarrow> string \<Rightarrow> query_flags \<Rightarrow> response io" where
  "respond w message f =
     (if isFaqQuery f then ok faq_reply
      else if isRefundQuery f then ok refund_reply
      else if isShippingQuery f then ok shipping_reply
      else if isPrivacyQuery f then ok privacy_reply
      else if isTermsQuery f then ok terms_reply
      else if isContactQuery f then ok contact_reply
      else if isSocialMediaQuery f then ok social_reply
      else if isRewardsQuery f then ok rewards_reply
      else if isSpecificProductQuery f then ok specific_product_reply
      else if isProductQuery f then product_query w message
      else ok default_reply)"

definition fallback :: "world \<Rightarrow> string \<Rightarrow> response io" where
  "fallback w message = respond w message (query_flags message)"

subsection \<open>The handler\<close>

definition llm_configured :: "env \<Rightarrow> bool" where
  "llm_configured e = (truthy_str (LLM_API_KEY e) \<and> truthy_str (LLM_PROVIDER e))"

text \<open>
  The \<open>try\<close> block of \<open>POST /api/chat\<close>. The message is a text, or \<open>None\<close> for a
  request body without \<open>message\<close>. A response sent without \<open>res.status\<close> has status 200.
\<close>

definition chat_try :: "env \<Rightarrow> world \<Rightarrow> string option \<Rightarrow> response io" where
  "chat_try e w message =
     (if \<not> shopify e then throw (Error ''Shopify client not initialized'')
      else case message of
             None \<Rightarrow> return (Response 400 (ErrorText ''Message is required''))
           | Some m \<Rightarrow>
               if m = [] then return (Response 400 (ErrorText ''Message is required''))
               else if llm_configured e then
                 (case build_context w m of
                    (ctx, cs) \<Rightarrow>
                      and_then (Inr (), cs)
                        (\<lambda>_. and_then (callLLM e w m ctx)
                               (\<lambda>llmResponse. if truthy llmResponse
                                               then return (Response 200 (Reply llmResponse))
                                               else fallback w m)))
               else fallback w m)"

text \<open>\<open>v || 500\<close> for an optional status.\<close>

definition or_500 :: "nat option \<Rightarrow> nat" where
  "or_500 st = (case st of None \<Rightarrow> 500 | Some n \<Rightarrow> if n = 0 then 500 else n)"

text \<open>The error-handling middleware, reached through \<open>next(error)\<close>.\<close>

definition errorHandler :: "js_error \<Rightarrow> response" where
  "errorHandler err =
     Response (or_500 (error_status err))
       (ErrorObject (or_default (Some (error_message err)) ''Internal Server Error'')
          (Some (or_500 (error_status err))) None)"

text \<open>The \<open>catch\<close> block of \<open>POST /api/chat\<close>.\<close>

definition chat_catch :: "js_error \<Rightarrow> response" where
  "chat_catch error =
     (case error_response error of
        Some r \<Rightarrow>
          Response (or_500 (response_status r))
            (ErrorObject
               (case response_errors r of
                  None \<Rightarrow> error_message error
                | Some errors \<Rightarrow> if errors = [] then error_message error else errors)
               (response_status r) (Some ''ShopifyAPIError''))
      | None \<Rightarrow> errorHandler error)"

text \<open>One request to \<open>POST /api/chat\<close>: the response sent and the calls issued.\<close>

definition chat :: "env \<Rightarrow> world \<Rightarrow> string option \<Rightarrow> response \<times> call list" where
  "chat e w message =
     (case chat_try e w message of
        (Inl error, cs) \<Rightarrow> (chat_catch error, cs)
      | (Inr r, cs) \<Rightarrow> (r, cs))"

section \<open>The specification's notions\<close>

text \<open>
  The intents of the specification, its priority order as a list of intents with their
  vocabularies, first match wins, and the reply it composes for an intent.
\<close>

datatype intent =
    Faq | Refund | Shipping | Privacy | Terms | Contact | Social | Rewards
  | SpecificProduct | GenericProduct | Default

definition priority_order :: "(intent \<times> (query_flags \<Rightarrow> bool)) list" where
  "priority_order =
     [(Faq, isFaqQuery), (Refund, isRefundQuery), (Shipping, isShippingQuery),
      (Privacy, isPrivacyQuery), (Terms, isTermsQuery), (Contact, isContactQuery),
      (Social, isSocialMediaQuery), (Rewards, isRewardsQuery),
      (SpecificProduct, isSpecificProductQuery), (GenericProduct, isProductQuery)]"

definition first_match :: "query_flags \<Rightarrow> intent" where
  "first_match f = (case find (\<lambda>(i, matches). matches f) priority_order of
                      Some (i, matches) \<Rightarrow> i
                    | None \<Rightarrow> Default)"

definition compose :: "world \<Rightarrow> string \<Rightarrow> intent \<Rightarrow> response io" where
  "compose w message i =
     (case i of
        Faq \<Rightarrow> ok faq_reply
      | Refund \<Rightarrow> ok refund_reply
      | Shipping \<Rightarrow> ok shipping_reply
      | Privacy \<Rightarrow> ok privacy_reply
      | Terms \<Rightarrow> ok terms_reply
      | Contact \<Rightarrow> ok contact_reply
      | Social \<Rightarrow> ok social_reply
      | Rewards \<Rightarrow> ok rewards_reply
      | SpecificProduct \<Rightarrow> ok specific_product_reply
      | GenericProduct \<Rightarrow> product_query w message
      | Default \<Rightarrow> ok default_reply)"

text \<open>The two kinds of result that the specification gives the LLM invoker.\<close>

definition is_text :: "json \<Rightarrow> bool" where
  "is_text v = (case v of JStr s \<Rightarrow> True | _ \<Rightarrow> False)"

definition absent :: "json \<Rightarrow> bool" where
  "absent v = (case v of JNull \<Rightarrow> True | JUndefined \<Rightarrow> True | _ \<Rightarrow> False)"

text \<open>A two-decimal number text: digits, a point, two digits.\<close>

definition is_two_decimal :: "string \<Rightarrow> bool" where
  "is_two_decimal s =
     (case rev s of
        d2 # d1 # dot # ds \<Rightarrow>
          is_digit d2 \<and> is_digit d1 \<and> dot = CHR ''.'' \<and> ds \<noteq> [] \<and> list_all is_digit ds
      | _ \<Rightarrow> False)"

text \<open>The number of calls of each kind among the calls of a request.\<close>

definition llm_calls :: "call list \<Rightarrow> nat" where
  "llm_calls cs = length (filter is_llm_call cs)"

definition catalog_calls :: "call list \<Rightarrow> nat" where
  "catalog_calls cs = length (filter is_catalog_call cs)"


section \<open>Sample configurations and worlds\<close>

definition rules_only :: env where
  "rules_only = \<lparr>shopify = True, LLM_API_KEY = None, LLM_PROVIDER = None, LLM_MODEL = None\<rparr>"

definition with_openai :: env where
  "with_openai =
     \<lparr>shopify = True, LLM_API_KEY = Some ''sk-test'', LLM_PROVIDER = Some ''OpenAI'', LLM_MODEL = None\<rparr>"


definition with_unknown :: env where
  "with_unknown =
     \<lparr>shopify = True, LLM_API_KEY = Some ''key'', LLM_PROVIDER = Some ''mistral'', LLM_MODEL = None\<rparr>"

definition serum :: product where
  "serum = \<lparr>title = ''Serum'', variants = Some [\<lparr>variant_price = Some ''12.5''\<rparr>], price = None,
            body_html = Some ''<p>A <b>light</b> serum</p>''\<rparr>"

definition mug :: product where
  "mug = \<lparr>title = ''Mug'', variants = None, price = None, body_html = None\<rparr>"

definition candle :: product where
  "candle = \<lparr>title = ''Candle'', variants = Some [], price = None, body_html = None\<rparr>"

definition pan :: product where
  "pan = \<lparr>title = ''Pan'',
          variants = Some [\<lparr>variant_price = Some ''0.00''\<rparr>, \<lparr>variant_price = Some ''30''\<rparr>],
          price = None, body_html = None\<rparr>"

definition whisk :: product where
  "whisk = \<lparr>title = ''Whisk'', variants = Some [\<lparr>variant_price = None\<rparr>], price = Some ''4.999'',
            body_html = None\<rparr>"

definition gold_bar :: product where
  "gold_bar = \<lparr>title = ''Gold bar'', variants = Some [\<lparr>variant_price = Some ''Infinity''\<rparr>],
               price = None, body_html = None\<rparr>"

definition kitchen :: collection where
  "kitchen = \<lparr>collection_id = 7, collection_title = ''Kitchen Essentials''\<rparr>"

text \<open>
  The error of the Shopify REST client for an answer 503. Its \<open>response\<close> holds the HTTP
  code under \<open>code\<close>; the field \<open>status\<close>, which the handlers read, is not set.
\<close>

definition unavailable :: js_error where
  "unavailable =
     \<lparr>error_message = ''Received an error response (503 Service Unavailable) from Shopify'',
      error_status = None,
      error_response = Some \<lparr>response_status = None, response_errors = Some ''Service Unavailable''\<rparr>\<rparr>"

text \<open>
  A shop with two products and a kitchen collection with the given products, where no
  LLM provider can be reached.
\<close>

definition stocked :: "product list \<Rightarrow> world" where
  "stocked kitchen_products =
     \<lparr>catalog =
        (\<lambda>req. case req of
                 GetProducts limit \<Rightarrow> Inr \<lparr>products = Some [serum, candle], custom_collections = None\<rparr>
               | GetCustomCollections \<Rightarrow> Inr \<lparr>products = None, custom_collections = Some [kitchen]\<rparr>
               | GetCollectionProducts i limit \<Rightarrow>
                   Inr \<lparr>products = Some kitchen_products, custom_collections = None\<rparr>),
      transport = (\<lambda>req. NetworkFailure)\<rparr>"

definition shop :: world where
  "shop = stocked [pan, whisk]"

text \<open>A world where the catalog fails and every LLM request gets the same outcome.\<close>

definition provider_says :: "transport_outcome \<Rightarrow> world" where
  "provider_says outcome = \<lparr>catalog = (\<lambda>req. Inl unavailable), transport = (\<lambda>req. outcome)\<rparr>"

text \<open>An answer in the shapes of the three providers at once.\<close>

definition answer :: json where
  "answer =
     JObj [(''choices'', JArr [JObj [(''message'', JObj [(''content'', JStr ''Hello!'')])]]),
           (''content'', JArr [JObj [(''text'', JStr ''Hello!'')]]),
           (''candidates'',
            JArr [JObj [(''content'', JObj [(''parts'', JArr [JObj [(''text'', JStr ''Hello!'')]])])]])]"

text \<open>An answer of the OpenAI shape whose content is the number 42.\<close>

definition number_answer :: json where
  "number_answer = JObj [(''choices'', JArr [JObj [(''message'', JObj [(''content'', JNum 42)])]])]"

definition provider_overloaded :: transport_outcome where
  "provider_overloaded = HttpResponse 529 (JObj [(''error'', JStr ''overloaded'')])"

section \<open>Properties\<close>

subsection \<open>Sequencing and call counts\<close>

declare show_nat.simps [simp del]

declare trim_start.simps [simp del]

lemma toLowerCase_samples:
  "toLowerCase ''ABCDEFGHIJKLMNOPQRSTUVWXYZ'' = ''abcdefghijklmnopqrstuvwxyz'' \<and>
   toLowerCase ''abcdefghijklmnopqrstuvwxyz0123456789 @[`{-'' =
     ''abcdefghijklmnopqrstuvwxyz0123456789 @[`{-'' \<and>
   toLowerCase pound = pound \<and> toLowerCase bullet = bullet"
  by (simp add: toLowerCase_def pound_def bullet_def)

lemma ok_eq: "ok text = (Inr (Response 200 (Reply (JStr text))), [])"
  by (simp add: ok_def return_def)

lemma and_then_Inr: "and_then (Inr v, cs) f = (fst (f v), cs @ snd (f v))"
  by (simp add: and_then_def split: prod.splits)

lemma and_then_Inl: "and_then (Inl e, cs) f = (Inl e, cs)"
  by (simp add: and_then_def)

lemma and_then_return: "and_then (return v) f = f v"
  by (simp add: and_then_def return_def split: prod.splits)

lemma snd_and_then:
  "snd (and_then m f) = (case fst m of Inl e \<Rightarrow> snd m | Inr v \<Rightarrow> snd m @ snd (f v))"
  by (cases m) (auto simp: and_then_def split: sum.splits prod.splits)

lemma llm_calls_append: "llm_calls (xs @ ys) = llm_calls xs + llm_calls ys"
  by (simp add: llm_calls_def)

lemma catalog_calls_append: "catalog_calls (xs @ ys) = catalog_calls xs + catalog_calls ys"
  by (simp add: catalog_calls_def)

lemma calls_Nil: "llm_calls [] = 0" "catalog_calls [] = 0"
  by (simp_all add: llm_calls_def catalog_calls_def)

lemma snd_ok: "snd (ok text) = []"
  by (simp add: ok_eq)

lemma snd_client_get: "snd (client_get w req) = [CatalogCall req]"
  by (simp add: client_get_def)

lemma llm_attempt_eq:
  "llm_attempt e w p k prompt ctx =
     (case requestConfig (toLowerCase p) (LLM_MODEL e) k prompt ctx of
        None \<Rightarrow> (Inr JNull, [])
      | Some config \<Rightarrow>
          (case transport w config of
             NetworkFailure \<Rightarrow> (Inl (Error ''Network Error''), [LLMCall config])
           | HttpResponse st d \<Rightarrow>
               if 200 \<le> st \<and> st < 300
               then (Inr (extract_reply (toLowerCase p) d), [LLMCall config])
               else (Inl (status_error st), [LLMCall config])))"
  by (auto simp: llm_attempt_def Let_def return_def axios_def and_then_def
           split: option.splits transport_outcome.splits)

lemma callLLM_eq:
  "callLLM e w prompt ctx =
     (case (LLM_API_KEY e, LLM_PROVIDER e) of
        (Some k, Some p) \<Rightarrow>
          if k = [] \<or> p = [] then (Inr JNull, [])
          else (case requestConfig (toLowerCase p) (LLM_MODEL e) k prompt ctx of
                  None \<Rightarrow> (Inr JNull, [])
                | Some config \<Rightarrow>
                    (case transport w config of
                       NetworkFailure \<Rightarrow> (Inr JNull, [LLMCall config])
                     | HttpResponse st d \<Rightarrow>
                         (if 200 \<le> st \<and> st < 300 then Inr (extract_reply (toLowerCase p) d)
                          else Inr JNull,
                          [LLMCall config])))
      | _ \<Rightarrow> (Inr JNull, []))"
  by (auto simp: callLLM_def llm_attempt_eq try_catch_def return_def
           split: option.splits transport_outcome.splits)

lemma snd_callLLM:
  "snd (callLLM e w prompt ctx) = [] \<or> (\<exists>req. snd (callLLM e w prompt ctx) = [LLMCall req])"
  by (simp add: callLLM_eq split: option.splits transport_outcome.splits)

lemma callLLM_Inr: "\<exists>v. fst (callLLM e w prompt ctx) = Inr v"
  by (simp add: callLLM_eq split: option.splits transport_outcome.splits)

lemma callLLM_counts:
  "llm_calls (snd (callLLM e w prompt ctx)) \<le> 1 \<and> catalog_calls (snd (callLLM e w prompt ctx)) = 0"
  using snd_callLLM [of e w prompt ctx] by (auto simp: llm_calls_def catalog_calls_def)

lemma build_context_counts:
  "llm_calls (snd (build_context w m)) = 0 \<and> catalog_calls (snd (build_context w m)) \<le> 1"
  by (simp add: build_context_def llm_calls_def catalog_calls_def)

lemma find_collection_counts:
  "llm_calls (snd (find_collection w m)) = 0 \<and> catalog_calls (snd (find_collection w m)) \<le> 1"
  by (simp add: find_collection_def snd_and_then client_get_def return_def llm_calls_def
        catalog_calls_def split: sum.splits)

lemma fetch_products_counts:
  "llm_calls (snd (fetch_products w i)) = 0 \<and> catalog_calls (snd (fetch_products w i)) = 1"
  by (simp add: fetch_products_def snd_and_then client_get_def return_def llm_calls_def
        catalog_calls_def split: sum.splits option.splits)

lemma product_query_counts:
  "llm_calls (snd (product_query w m)) = 0 \<and> catalog_calls (snd (product_query w m)) \<le> 2"
proof -
  have "llm_calls (snd (product_query w m)) = 0"
    using find_collection_counts [of w m] fetch_products_counts [of w]
    by (auto simp: product_query_def snd_and_then llm_calls_append snd_ok calls_Nil
             split: sum.splits prod.splits)
  moreover have "catalog_calls (snd (product_query w m)) \<le> 2"
    using find_collection_counts [of w m] fetch_products_counts [of w]
    by (auto simp: product_query_def snd_and_then catalog_calls_append snd_ok calls_Nil
             split: sum.splits prod.splits)
  ultimately show ?thesis by simp
qed

lemma respond_counts:
  "llm_calls (snd (respond w m f)) = 0 \<and> catalog_calls (snd (respond w m f)) \<le> 2"
  using product_query_counts [of w m] by (simp add: respond_def snd_ok calls_Nil)

lemma fallback_counts:
  "llm_calls (snd (fallback w m)) = 0 \<and> catalog_calls (snd (fallback w m)) \<le> 2"
  by (simp add: fallback_def respond_counts)

lemma snd_chat: "snd (chat e w m) = snd (chat_try e w m)"
  by (simp add: chat_def split: prod.splits sum.splits)

lemma snd_chat_try:
  "snd (chat_try e w m) =
     (case m of
        None \<Rightarrow> []
      | Some t \<Rightarrow>
          if \<not> shopify e \<or> t = [] then []
          else if llm_configured e then
            snd (build_context w t) @ snd (callLLM e w t (fst (build_context w t))) @
            (case fst (callLLM e w t (fst (build_context w t))) of
               Inl err \<Rightarrow> []
             | Inr v \<Rightarrow> if truthy v then [] else snd (fallback w t))
          else snd (fallback w t))"
  by (auto simp: chat_try_def throw_def return_def and_then_def
           split: option.splits prod.splits sum.splits)

lemma chat_counts:
  "llm_calls (snd (chat e w m)) \<le> 1 \<and> catalog_calls (snd (chat e w m)) \<le> 3 \<and>
   (\<not> llm_configured e \<longrightarrow> llm_calls (snd (chat e w m)) = 0 \<and> catalog_calls (snd (chat e w m)) \<le> 2)"
proof (cases m)
  case None
  then show ?thesis by (simp add: snd_chat snd_chat_try calls_Nil)
next
  case (Some t)
  let ?b = "build_context w t"
  let ?l = "callLLM e w t (fst ?b)"
  note b = build_context_counts [of w t]
  note l = callLLM_counts [of e w t "fst ?b"]
  note f = fallback_counts [of w t]
  from Some b l f show ?thesis
    by (auto simp: snd_chat snd_chat_try calls_Nil llm_calls_append catalog_calls_append
             split: sum.splits)
qed

lemma snd_build_context:
  "snd (build_context w m) = (if test_i product_words m then [CatalogCall (GetProducts 10)] else [])"
  by (simp add: build_context_def)

lemma callLLM_no_response:
  "transport w = (\<lambda>req. NetworkFailure) \<Longrightarrow> fst (callLLM e w prompt ctx) = Inr JNull"
  by (simp add: callLLM_eq split: option.splits)

lemma fetch_products_eq:
  "fetch_products w i =
     (let req = (case i of None \<Rightarrow> GetProducts 5
                 | Some n \<Rightarrow> if n \<noteq> 0 then GetCollectionProducts n 5 else GetProducts 5)
      in case catalog w req of
           Inl err \<Rightarrow> (Inl err, [CatalogCall req])
         | Inr b \<Rightarrow> (Inr (case products b of None \<Rightarrow> [] | Some ps \<Rightarrow> ps), [CatalogCall req]))"
  by (simp add: fetch_products_def client_get_def and_then_def return_def Let_def
           split: option.splits sum.splits)

lemma find_collection_eq:
  "find_collection w m =
     (if beautyCollectionQuery m \<or> kitchenCollectionQuery m
      then (case catalog w GetCustomCollections of
              Inl err \<Rightarrow> (Inl err, [CatalogCall GetCustomCollections])
            | Inr b \<Rightarrow>
                (Inr (pick_collection m (case custom_collections b of None \<Rightarrow> [] | Some cs \<Rightarrow> cs)),
                 [CatalogCall GetCustomCollections]))
      else (Inr (None, []), []))"
  by (simp add: find_collection_def client_get_def and_then_def return_def split: sum.splits)

lemma product_query_eq:
  "product_query w m =
     (case find_collection w m of
        (Inl err, cs) \<Rightarrow> (Inl err, cs)
      | (Inr (collectionId, collectionName), cs) \<Rightarrow>
          (case fetch_products w collectionId of
             (Inl err, cs') \<Rightarrow> (Inl err, cs @ cs')
           | (Inr ps, cs') \<Rightarrow>
               (Inr (Response 200 (Reply (JStr
                  (if ps = [] then empty_reply collectionId collectionName
                   else listing_reply collectionId collectionName ps)))),
                cs @ cs')))"
  by (auto simp: product_query_def and_then_def ok_eq split: prod.splits sum.splits)

subsection \<open>The sample configurations and worlds\<close>

lemma shop_facts:
  "catalog shop (GetProducts n) = Inr \<lparr>products = Some [serum, candle], custom_collections = None\<rparr>"
  "catalog shop GetCustomCollections = Inr \<lparr>products = None, custom_collections = Some [kitchen]\<rparr>"
  "catalog shop (GetCollectionProducts i n) = Inr \<lparr>products = Some [pan, whisk], custom_collections = None\<rparr>"
  "transport shop = (\<lambda>req. NetworkFailure)"
  by (simp_all add: shop_def stocked_def)

lemma stocked_facts:
  "catalog (stocked ps) (GetProducts n) = Inr \<lparr>products = Some [serum, candle], custom_collections = None\<rparr>"
  "catalog (stocked ps) GetCustomCollections = Inr \<lparr>products = None, custom_collections = Some [kitchen]\<rparr>"
  "catalog (stocked ps) (GetCollectionProducts i n) = Inr \<lparr>products = Some ps, custom_collections = None\<rparr>"
  by (simp_all add: stocked_def)

lemma with_openai_facts:
  "shopify with_openai" "llm_configured with_openai"
  "LLM_API_KEY with_openai = Some ''sk-test''" "LLM_PROVIDER with_openai = Some ''OpenAI''"
  "LLM_MODEL with_openai = None"
  by (simp_all add: with_openai_def llm_configured_def truthy_str_def)

lemma with_openai_shop:
  "callLLM with_openai shop prompt ctx = (Inr JNull, [LLMCall (openai_request None ''sk-test'' prompt ctx)])"
  by (simp add: callLLM_eq with_openai_facts shop_facts requestConfig_def toLowerCase_def)

lemma provider_says_facts:
  "transport (provider_says outcome) = (\<lambda>req. outcome)"
  "catalog (provider_says outcome) = (\<lambda>req. Inl unavailable)"
  by (simp_all add: provider_says_def)

lemma with_unknown_facts:
  "LLM_PROVIDER with_unknown = Some ''mistral''" "LLM_API_KEY with_unknown = Some ''key''"
  "llm_configured with_unknown"
  by (simp_all add: with_unknown_def llm_configured_def truthy_str_def)

subsection \<open>The flags of the sample messages\<close>

lemma space_flags:
  "query_flags '' '' =
     \<lparr>isProductQuery = False, isSpecificProductQuery = False, isGoldEyeMaskQuery = False,
      isRewardsQuery = False, isFaqQuery = False, isRefundQuery = False, isShippingQuery = False,
      isPrivacyQuery = False, isTermsQuery = False, isContactQuery = False,
      isSocialMediaQuery = False\<rparr>"
  by code_simp

lemma refund_order_flags:
  "query_flags ''Can I get a refund for my order?'' =
     \<lparr>isProductQuery = True, isSpecificProductQuery = False, isGoldEyeMaskQuery = False,
      isRewardsQuery = False, isFaqQuery = False, isRefundQuery = True, isShippingQuery = False,
      isPrivacyQuery = False, isTermsQuery = False, isContactQuery = False,
      isSocialMediaQuery = False\<rparr>"
  by code_simp

lemma question_return_flags:
  "query_flags ''I have a question about returning an item'' =
     \<lparr>isProductQuery = True, isSpecificProductQuery = False, isGoldEyeMaskQuery = False,
      isRewardsQuery = False, isFaqQuery = True, isRefundQuery = True, isShippingQuery = False,
      isPrivacyQuery = False, isTermsQuery = False, isContactQuery = False,
      isSocialMediaQuery = False\<rparr>"
  by code_simp

lemma beauty_products_flags:
  "query_flags ''beauty products'' =
     \<lparr>isProductQuery = True, isSpecificProductQuery = False, isGoldEyeMaskQuery = False,
      isRewardsQuery = False, isFaqQuery = False, isRefundQuery = False, isShippingQuery = False,
      isPrivacyQuery = False, isTermsQuery = False, isContactQuery = False,
      isSocialMediaQuery = False\<rparr>"
  by code_simp

lemma kitchen_message_flags:
  "query_flags ''show me your kitchen products'' =
     \<lparr>isProductQuery = True, isSpecificProductQuery = False, isGoldEyeMaskQuery = False,
      isRewardsQuery = False, isFaqQuery = False, isRefundQuery = False, isShippingQuery = False,
      isPrivacyQuery = False, isTermsQuery = False, isContactQuery = False,
      isSocialMediaQuery = False\<rparr>"
  by code_simp

lemma both_message_flags:
  "query_flags ''show me your beauty and kitchen products'' =
     \<lparr>isProductQuery = True, isSpecificProductQuery = False, isGoldEyeMaskQuery = False,
      isRewardsQuery = False, isFaqQuery = False, isRefundQuery = False, isShippingQuery = False,
      isPrivacyQuery = False, isTermsQuery = False, isContactQuery = False,
      isSocialMediaQuery = False\<rparr>"
  by code_simp

lemma products_flags:
  "query_flags ''products'' =
     \<lparr>isProductQuery = True, isSpecificProductQuery = False, isGoldEyeMaskQuery = False,
      isRewardsQuery = False, isFaqQuery = False, isRefundQuery = False, isShippingQuery = False,
      isPrivacyQuery = False, isTermsQuery = False, isContactQuery = False,
      isSocialMediaQuery = False\<rparr>"
  by code_simp

lemma gold_mask_flags:
  "query_flags ''Do you sell the 24K Gold Eye Mask?'' =
     \<lparr>isProductQuery = False, isSpecificProductQuery = False, isGoldEyeMaskQuery = True,
      isRewardsQuery = False, isFaqQuery = False, isRefundQuery = False, isShippingQuery = False,
      isPrivacyQuery = False, isTermsQuery = False, isContactQuery = False,
      isSocialMediaQuery = False\<rparr>"
  by code_simp

lemma puffiness_flags:
  "query_flags ''Puffiness'' =
     \<lparr>isProductQuery = False, isSpecificProductQuery = False, isGoldEyeMaskQuery = True,
      isRewardsQuery = False, isFaqQuery = False, isRefundQuery = False, isShippingQuery = False,
      isPrivacyQuery = False, isTermsQuery = False, isContactQuery = False,
      isSocialMediaQuery = False\<rparr>"
  by code_simp

lemma openai_answer: "extract_reply ''openai'' answer = JStr ''Hello!''"
  by (simp add: extract_reply_def answer_def get_prop_def get_first_def)

lemma lower_openai: "toLowerCase ''OpenAI'' = ''openai''"
  by (simp add: toLowerCase_def)

lemma products_message:
  "test_i product_words ''products''"
  "\<not> beautyCollectionQuery ''products''"
  "\<not> kitchenCollectionQuery ''products''"
  by code_simp+

lemma with_openai_answered:
  "callLLM with_openai (provider_says (HttpResponse 200 answer)) prompt ctx =
     (Inr (JStr ''Hello!''), [LLMCall (openai_request None ''sk-test'' prompt ctx)])"
  by (simp add: callLLM_eq with_openai_facts provider_says_facts lower_openai requestConfig_def
        openai_answer)

lemma kitchen_message_collection:
  "\<not> beautyCollectionQuery ''show me your kitchen products''"
  "kitchenCollectionQuery ''show me your kitchen products''"
  "test_i [''kitchen'', ''kitchen essentials''] ''Kitchen Essentials''"
  "\<not> test_i [''beauty'', ''beauty essentials''] ''Kitchen Essentials''"
  by code_simp+

lemma both_message_collection:
  "beautyCollectionQuery ''show me your beauty and kitchen products''"
  "kitchenCollectionQuery ''show me your beauty and kitchen products''"
  by code_simp+

lemma kitchen_facts: "collection_id kitchen = 7" "collection_title kitchen = ''Kitchen Essentials''"
  by (simp_all add: kitchen_def)

lemma beauty_products_collection:
  "beautyCollectionQuery ''beauty products'' \<and> pick_collection ''beauty products'' [kitchen] = (None, [])"
  by code_simp

subsection \<open>The number model\<close>

text \<open>
  The binary exponent brackets its argument, and the comparison with \<open>2 ^ 1024\<close> that
  \<open>to_double\<close> leaves out below the quantum \<open>2 ^ 971\<close> could never succeed there.
\<close>

lemma ilog2_ge1:
  assumes "1 \<le> r"
  shows "rpow 2 (ilog2 r) \<le> r \<and> r < rpow 2 (ilog2 r + 1)"
proof -
  define n where "n = nat \<lfloor>r\<rfloor>"
  define k where "k = floorlog 2 n"
  from assms have n: "0 < n" by (simp add: n_def)
  from floorlog_bounds [OF n, of 2] have b: "2 ^ (k - 1) \<le> n" "n < 2 ^ k"
    by (simp_all add: k_def)
  from n have k: "0 < k" by (simp add: k_def floorlog_def)
  have nr: "of_nat n \<le> r" "r < of_nat n + 1"
    using assms floor_correct [of r] by (simp_all add: n_def)
  have "(2::rat) ^ (k - 1) \<le> of_nat n"
    using b(1) by (metis of_nat_le_iff of_nat_numeral of_nat_power)
  with nr have lo: "(2::rat) ^ (k - 1) \<le> r" by linarith
  have "n + 1 \<le> 2 ^ k" using b(2) by simp
  then have "(of_nat n :: rat) + 1 \<le> 2 ^ k"
    by (metis of_nat_Suc Suc_eq_plus1 of_nat_le_iff of_nat_numeral of_nat_power add.commute)
  with nr have hi: "r < (2::rat) ^ k" by linarith
  have i: "ilog2 r = int k - 1" using assms by (simp add: ilog2_def n_def k_def)
  from k have "nat (int k - 1) = k - 1" "nat (int k - 1 + 1) = k" "0 \<le> int k - 1" by simp_all
  with lo hi show ?thesis by (simp add: i rpow_def)
qed

lemma ilog2_lt1:
  assumes "0 < r" and "r < 1"
  shows "rpow 2 (ilog2 r) \<le> r \<and> r < rpow 2 (ilog2 r + 1)"
proof -
  define n where "n = nat (\<lceil>1 / r\<rceil> - 1)"
  define k where "k = floorlog 2 n"
  from assms have "1 < 1 / r" by simp
  then have c: "2 \<le> \<lceil>1 / r\<rceil>" by (simp add: le_ceiling_iff)
  then have n: "0 < n" by (simp add: n_def)
  from floorlog_bounds [OF n, of 2] have b: "2 ^ (k - 1) \<le> n" "n < 2 ^ k"
    by (simp_all add: k_def)
  from n have k: "0 < k" by (simp add: k_def floorlog_def)
  from c have "0 \<le> \<lceil>1 / r\<rceil> - 1" by linarith
  then have "int n = \<lceil>1 / r\<rceil> - 1" unfolding n_def by (rule nat_0_le)
  then have nr: "of_nat n < 1 / r" "1 / r \<le> of_nat n + 1"
    by (metis of_int_of_nat_eq less_ceiling_iff zle_diff1_eq order_refl diff_add_cancel,
        metis of_int_of_nat_eq ceiling_le_iff order_refl diff_add_cancel of_int_add of_int_1)
  have "(2::rat) ^ (k - 1) \<le> of_nat n"
    using b(1) by (metis of_nat_le_iff of_nat_numeral of_nat_power)
  with nr have lo: "(2::rat) ^ (k - 1) < 1 / r" by linarith
  have "n + 1 \<le> 2 ^ k" using b(2) by simp
  then have "(of_nat n :: rat) + 1 \<le> 2 ^ k"
    by (metis of_nat_Suc Suc_eq_plus1 of_nat_le_iff of_nat_numeral of_nat_power add.commute)
  with nr have hi: "1 / r \<le> (2::rat) ^ k" by linarith
  have i: "ilog2 r = - int k" using assms by (simp add: ilog2_def n_def k_def)
  from hi assms have 1: "1 / 2 ^ k \<le> r"
    by (simp add: field_simps)
  from lo assms have 2: "r < 1 / 2 ^ (k - 1)"
    by (simp add: field_simps)
  show ?thesis
  proof (cases "k = 1")
    case True
    with 1 2 show ?thesis by (simp add: i rpow_def)
  next
    case False
    with k have "\<not> 0 \<le> - int k + 1" "nat (- (- int k + 1)) = k - 1" by simp_all
    with 1 2 k show ?thesis by (simp add: i rpow_def)
  qed
qed

lemma ilog2_bounds: "0 < r \<Longrightarrow> rpow 2 (ilog2 r) \<le> r \<and> r < rpow 2 (ilog2 r + 1)"
  using ilog2_ge1 [of r] ilog2_lt1 [of r] by (cases "1 \<le> r") auto

lemma rpow_power_int: "rpow 2 k = power_int 2 k"
  by (simp add: rpow_def power_int_def field_simps)

lemma round_half_even_le: "round_half_even x \<le> \<lfloor>x\<rfloor> + 1"
  by (simp add: round_half_even_def Let_def)


lemma significand_below:
  assumes "0 < a" and "ilog2 a - 52 \<le> e"
  shows "round_half_even (a / rpow 2 e) \<le> 2 ^ 53"
proof -
  have p: "(0::rat) < power_int 2 e" by simp
  from ilog2_bounds [OF assms(1)] have "a < power_int 2 (ilog2 a + 1)"
    by (simp add: rpow_power_int)
  also have "\<dots> \<le> power_int 2 (e + 53)"
    using assms(2) by (intro power_int_increasing) simp_all
  also have "\<dots> = power_int 2 e * 2 ^ 53"
    by (simp add: power_int_add)
  finally have "a / power_int 2 e < 2 ^ 53"
    using p by (simp add: field_simps)
  then have "\<lfloor>a / power_int 2 e\<rfloor> < 2 ^ 53"
    by (simp add: floor_less_iff)
  then have "\<lfloor>a / power_int 2 e\<rfloor> + 1 \<le> 2 ^ 53"
    by linarith
  with round_half_even_le [of "a / power_int 2 e"]
  have "round_half_even (a / power_int 2 e) \<le> 2 ^ 53"
    by (rule order_trans)
  then show ?thesis by (simp only: rpow_power_int)
qed

lemma below_overflow:
  assumes "0 < a" and "ilog2 a - 52 \<le> e" and "e < 971"
  shows "of_int (round_half_even (a / rpow 2 e)) * rpow 2 e < 2 ^ 1024"
proof -
  have "(of_int (round_half_even (a / rpow 2 e)) :: rat) \<le> of_int (2 ^ 53)"
    using significand_below [OF assms(1,2)] by (simp only: of_int_le_iff)
  then have s: "(of_int (round_half_even (a / rpow 2 e)) :: rat) \<le> 2 ^ 53" by simp
  have "rpow 2 e \<le> power_int 2 970"
    unfolding rpow_power_int using assms(3) by (intro power_int_increasing) simp_all
  then have q: "rpow 2 e \<le> 2 ^ 970" by simp
  have "0 \<le> rpow 2 e" by (simp add: rpow_power_int)
  with s q have "of_int (round_half_even (a / rpow 2 e)) * rpow 2 e \<le> 2 ^ 53 * 2 ^ 970"
    by (intro mult_mono) simp_all
  also have "\<dots> = (2::rat) ^ 1023" by (simp add: power_add [symmetric])
  also have "\<dots> < 2 ^ 1024" by (intro power_strict_increasing) simp_all
  finally show ?thesis .
qed

lemma to_double_overflow:
  "to_double r =
     (if r = 0 then Finite 0
      else let a = \<bar>r\<bar>;
               e = max (ilog2 a - 52) (- 1074);
               v = of_int (round_half_even (a / rpow 2 e)) * rpow 2 e
           in if 2 ^ 1024 \<le> v then (if r < 0 then NegInf else PosInf)
              else Finite (if r < 0 then - v else v))"
proof (cases "r = 0")
  case True
  then show ?thesis by (simp add: to_double_def)
next
  case False
  then have a: "0 < \<bar>r\<bar>" by simp
  show ?thesis
  proof (cases "971 \<le> max (ilog2 \<bar>r\<bar> - 52) (- 1074)")
    case True
    then show ?thesis by (simp only: to_double_def Let_def if_True)
  next
    case e: False
    then have "max (ilog2 \<bar>r\<bar> - 52) (- 1074) < 971" by simp
    from below_overflow [OF a _ this]
    have "\<not> 2 ^ 1024 \<le> of_int (round_half_even (\<bar>r\<bar> / rpow 2 (max (ilog2 \<bar>r\<bar> - 52) (- 1074)))) *
        rpow 2 (max (ilog2 \<bar>r\<bar> - 52) (- 1074))"
      by simp
    with e False show ?thesis by (simp only: to_double_def Let_def if_False)
  qed
qed

subsection \<open>Validation of the message\<close>

lemma chat_without_llm:
  "shopify e \<Longrightarrow> \<not> llm_configured e \<Longrightarrow> t \<noteq> [] \<Longrightarrow>
   chat e w (Some t) =
     (case fallback w t of (Inl err, cs) \<Rightarrow> (chat_catch err, cs) | (Inr r, cs) \<Rightarrow> (r, cs))"
  by (simp add: chat_def chat_try_def)

lemma rules_only_facts: "shopify rules_only" "\<not> llm_configured rules_only"
  by (simp_all add: rules_only_def llm_configured_def truthy_str_def)

lemma missing_message_response:
  "shopify e \<Longrightarrow> m = None \<or> m = Some [] \<Longrightarrow>
   chat e w m = (Response 400 (ErrorText ''Message is required''), [])"
  by (auto simp: chat_def chat_try_def return_def)

text \<open>
  C1, as the code has it. With the Shopify client built, a request whose message is
  missing or the empty string ends with status 400 and an error body, and no outbound
  call is issued. (A message of white space only is not empty: see the counterexample.)
\<close>

theorem empty_message_rejected:
  "shopify e \<Longrightarrow> m = None \<or> m = Some [] \<Longrightarrow>
   status_of (fst (chat e w m)) = 400 \<and> (\<forall>v. body_of (fst (chat e w m)) \<noteq> Reply v) \<and>
   snd (chat e w m) = []"
  by (auto simp: chat_def chat_try_def return_def)

theorem empty_message_rejected_witness:
  "shopify with_openai \<and>
   status_of (fst (chat with_openai shop (Some []))) = 400 \<and>
   (\<forall>v. body_of (fst (chat with_openai shop (Some []))) \<noteq> Reply v) \<and>
   snd (chat with_openai shop (Some [])) = [] \<and>
   status_of (fst (chat with_openai shop None)) = 400 \<and>
   snd (chat with_openai shop None) = []"
proof -
  have s: "shopify with_openai" by (simp add: with_openai_def)
  from s empty_message_rejected [OF s, of "Some []" shop]
    empty_message_rejected [OF s, of None shop]
  show ?thesis by simp
qed

text \<open>
  The claim fails for a message of one space: with no LLM configured the request is
  answered with status 200 and the default reply.
\<close>

theorem whitespace_message_answered:
  "chat rules_only shop (Some '' '') = (Response 200 (Reply (JStr default_reply)), []) \<and>
   status_of (fst (chat rules_only shop (Some '' ''))) \<noteq> 400"
  by (simp add: chat_without_llm rules_only_facts fallback_def respond_def space_flags ok_eq)

subsection \<open>The priority order of the rule-based replies\<close>

lemma first_match_eq:
  "first_match f =
     (if isFaqQuery f then Faq
      else if isRefundQuery f then Refund
      else if isShippingQuery f then Shipping
      else if isPrivacyQuery f then Privacy
      else if isTermsQuery f then Terms
      else if isContactQuery f then Contact
      else if isSocialMediaQuery f then Social
      else if isRewardsQuery f then Rewards
      else if isSpecificProductQuery f then SpecificProduct
      else if isProductQuery f then GenericProduct
      else Default)"
  by (simp add: first_match_def priority_order_def)

lemma fallback_compose: "fallback w message = compose w message (first_match (query_flags message))"
  by (simp add: fallback_def respond_def compose_def first_match_eq)

text \<open>
  C2, as the code has it. The chain of branches is the specification's priority order
  with first match winning: the fallback composes the reply of the first intent of the
  list whose vocabulary matches. A message that matches the refund and the product
  vocabulary is never classified Generic-product; it is classified Refund unless it also
  matches the FAQ vocabulary, and then FAQ.
\<close>

theorem priority_order_first_match:
  "fallback w message = compose w message (first_match (query_flags message)) \<and>
   (isRefundQuery (query_flags message) \<and> isProductQuery (query_flags message) \<longrightarrow>
      first_match (query_flags message) \<noteq> GenericProduct \<and>
      (isFaqQuery (query_flags message) \<longrightarrow> first_match (query_flags message) = Faq) \<and>
      (\<not> isFaqQuery (query_flags message) \<longrightarrow>
         first_match (query_flags message) = Refund \<and>
         fallback w message = (Inr (Response 200 (Reply (JStr refund_reply))), [])))"
  by (simp add: fallback_def respond_def compose_def first_match_eq ok_eq)

theorem priority_order_first_match_witness:
  "isRefundQuery (query_flags ''Can I get a refund for my order?'') \<and>
   isProductQuery (query_flags ''Can I get a refund for my order?'') \<and>
   \<not> isFaqQuery (query_flags ''Can I get a refund for my order?'') \<and>
   first_match (query_flags ''Can I get a refund for my order?'') = Refund \<and>
   fallback shop ''Can I get a refund for my order?'' =
     (Inr (Response 200 (Reply (JStr refund_reply))), [])"
proof -
  have h: "isRefundQuery (query_flags ''Can I get a refund for my order?'') \<and>
           isProductQuery (query_flags ''Can I get a refund for my order?'') \<and>
           \<not> isFaqQuery (query_flags ''Can I get a refund for my order?'')"
    by (simp add: refund_order_flags)
  from h priority_order_first_match [of shop "''Can I get a refund for my order?''"]
  show ?thesis by blast
qed

text \<open>
  The claim fails for a message with the words \<open>question\<close>, \<open>return\<close> and \<open>item\<close>: it
  matches the refund and the product vocabulary and gets the FAQ reply.
\<close>

theorem refund_and_product_message_gets_faq:
  "isRefundQuery (query_flags ''I have a question about returning an item'') \<and>
   isProductQuery (query_flags ''I have a question about returning an item'') \<and>
   fallback shop ''I have a question about returning an item'' =
     (Inr (Response 200 (Reply (JStr faq_reply))), []) \<and>
   faq_reply \<noteq> refund_reply"
  by (simp add: fallback_def respond_def question_return_flags ok_eq faq_reply_def refund_reply_def)

subsection \<open>The number of outbound calls\<close>

lemma snd_product_query:
  "snd (product_query w t) =
     (if beautyCollectionQuery t \<or> kitchenCollectionQuery t then
        CatalogCall GetCustomCollections #
        (case catalog w GetCustomCollections of
           Inl err \<Rightarrow> []
         | Inr b \<Rightarrow>
             [CatalogCall
                (case fst (pick_collection t (case custom_collections b of None \<Rightarrow> [] | Some cs \<Rightarrow> cs)) of
                   None \<Rightarrow> GetProducts 5
                 | Some i \<Rightarrow> if i \<noteq> 0 then GetCollectionProducts i 5 else GetProducts 5)])
      else [CatalogCall (GetProducts 5)])"
  by (auto simp: product_query_eq find_collection_eq fetch_products_eq Let_def
           split: sum.splits prod.splits option.splits)

lemma snd_fallback:
  "snd (fallback w t) =
     (if first_match (query_flags t) = GenericProduct then snd (product_query w t) else [])"
  by (simp add: fallback_compose compose_def ok_eq split: intent.splits)

lemma beauty_products_fallback:
  "snd (fallback shop ''beauty products'') = [CatalogCall GetCustomCollections, CatalogCall (GetProducts 5)]"
  by (simp add: snd_fallback first_match_eq beauty_products_flags snd_product_query
        beauty_products_collection shop_facts)

lemma callLLM_request:
  "snd (callLLM e w t ctx) = [] \<or>
   (\<exists>k p req. LLM_API_KEY e = Some k \<and> LLM_PROVIDER e = Some p \<and>
      requestConfig (toLowerCase p) (LLM_MODEL e) k t ctx = Some req \<and>
      snd (callLLM e w t ctx) = [LLMCall req])"
  by (auto simp: callLLM_eq split: option.splits transport_outcome.splits)

text \<open>
  C3, as the code has it. One request issues its outbound calls one after the other, in
  this order; a request that is refused before (the Shopify client is not built, or the
  message is missing or empty) issues none. With an LLM configured: for a message with product vocabulary the product
  lookup for the LLM context (limit 10); then at most one LLM call, whose request is built
  from the context that this lookup gave; then, only when the LLM gave no answer, the
  calls of the rule-based fallback. With no LLM configured: the calls of the fallback
  only. The fallback issues calls for the intent Generic-product only: with collection
  vocabulary the collections lookup and then, when that lookup has answered, one product
  lookup (limit 5), scoped to the collection picked from the answer or general; without
  collection vocabulary one general product lookup (limit 5). So a request issues at most
  one LLM call and at most three catalog calls, the fallback no LLM call and at most two
  catalog calls, and a request with no LLM configured no LLM call and at most two catalog
  calls.
\<close>

theorem chat_call_bounds:
  "snd (chat e w m) =
     (case m of
        None \<Rightarrow> []
      | Some t \<Rightarrow>
          if \<not> shopify e \<or> t = [] then []
          else if llm_configured e then
            (if test_i product_words t then [CatalogCall (GetProducts 10)] else []) @
            snd (callLLM e w t (fst (build_context w t))) @
            (case fst (callLLM e w t (fst (build_context w t))) of
               Inl err \<Rightarrow> []
             | Inr v \<Rightarrow> if truthy v then [] else snd (fallback w t))
          else snd (fallback w t)) \<and>
   (\<forall>t ctx. snd (callLLM e w t ctx) = [] \<or>
      (\<exists>k p req. LLM_API_KEY e = Some k \<and> LLM_PROVIDER e = Some p \<and>
         requestConfig (toLowerCase p) (LLM_MODEL e) k t ctx = Some req \<and>
         snd (callLLM e w t ctx) = [LLMCall req])) \<and>
   (\<forall>t. snd (fallback w t) =
      (if first_match (query_flags t) = GenericProduct then
         (if beautyCollectionQuery t \<or> kitchenCollectionQuery t then
            CatalogCall GetCustomCollections #
            (case catalog w GetCustomCollections of
               Inl err \<Rightarrow> []
             | Inr b \<Rightarrow>
                 [CatalogCall
                    (case fst (pick_collection t
                                 (case custom_collections b of None \<Rightarrow> [] | Some cs \<Rightarrow> cs)) of
                       None \<Rightarrow> GetProducts 5
                     | Some i \<Rightarrow> if i \<noteq> 0 then GetCollectionProducts i 5 else GetProducts 5)])
          else [CatalogCall (GetProducts 5)])
       else [])) \<and>
   llm_calls (snd (chat e w m)) \<le> 1 \<and> catalog_calls (snd (chat e w m)) \<le> 3 \<and>
   (\<not> llm_configured e \<longrightarrow>
      llm_calls (snd (chat e w m)) = 0 \<and> catalog_calls (snd (chat e w m)) \<le> 2) \<and>
   (\<forall>t. llm_calls (snd (fallback w t)) = 0 \<and> catalog_calls (snd (fallback w t)) \<le> 2)"
proof -
  have 1: "snd (chat e w m) =
     (case m of
        None \<Rightarrow> []
      | Some t \<Rightarrow>
          if \<not> shopify e \<or> t = [] then []
          else if llm_configured e then
            (if test_i product_words t then [CatalogCall (GetProducts 10)] else []) @
            snd (callLLM e w t (fst (build_context w t))) @
            (case fst (callLLM e w t (fst (build_context w t))) of
               Inl err \<Rightarrow> []
             | Inr v \<Rightarrow> if truthy v then [] else snd (fallback w t))
          else snd (fallback w t))"
    by (simp only: snd_chat snd_chat_try snd_build_context)
  have 2: "\<forall>t ctx. snd (callLLM e w t ctx) = [] \<or>
      (\<exists>k p req. LLM_API_KEY e = Some k \<and> LLM_PROVIDER e = Some p \<and>
         requestConfig (toLowerCase p) (LLM_MODEL e) k t ctx = Some req \<and>
         snd (callLLM e w t ctx) = [LLMCall req])"
    using callLLM_request [of e w] by blast
  have 3: "\<forall>t. snd (fallback w t) =
      (if first_match (query_flags t) = GenericProduct then
         (if beautyCollectionQuery t \<or> kitchenCollectionQuery t then
            CatalogCall GetCustomCollections #
            (case catalog w GetCustomCollections of
               Inl err \<Rightarrow> []
             | Inr b \<Rightarrow>
                 [CatalogCall
                    (case fst (pick_collection t
                                 (case custom_collections b of None \<Rightarrow> [] | Some cs \<Rightarrow> cs)) of
                       None \<Rightarrow> GetProducts 5
                     | Some i \<Rightarrow> if i \<noteq> 0 then GetCollectionProducts i 5 else GetProducts 5)])
          else [CatalogCall (GetProducts 5)])
       else [])"
    by (simp only: snd_fallback snd_product_query) simp
  from 1 2 3 chat_counts [of e w m] fallback_counts [of w] show ?thesis by blast
qed

theorem chat_call_bounds_witness:
  "\<not> llm_configured rules_only \<and>
   snd (chat rules_only shop (Some ''beauty products'')) =
     [CatalogCall GetCustomCollections, CatalogCall (GetProducts 5)] \<and>
   llm_calls (snd (chat rules_only shop (Some ''beauty products''))) = 0 \<and>
   catalog_calls (snd (chat rules_only shop (Some ''beauty products''))) \<le> 2 \<and>
   snd (fallback shop ''show me your kitchen products'') =
     [CatalogCall GetCustomCollections, CatalogCall (GetCollectionProducts 7 5)] \<and>
   snd (fallback shop ''products'') = [CatalogCall (GetProducts 5)] \<and>
   snd (fallback shop ''Puffiness'') = [] \<and>
   snd (chat with_openai (provider_says (HttpResponse 200 answer)) (Some ''products'')) =
     [CatalogCall (GetProducts 10),
      LLMCall (openai_request None ''sk-test'' ''products''
                 (fst (build_context (provider_says (HttpResponse 200 answer)) ''products'')))] \<and>
   llm_calls (snd (chat with_openai shop (Some ''beauty products''))) \<le> 1 \<and>
   catalog_calls (snd (chat with_openai shop (Some ''beauty products''))) \<le> 3"
proof -
  note r = chat_call_bounds [of rules_only shop "Some ''beauty products''"]
  have fb: "snd (fallback shop ''beauty products'') =
      [CatalogCall GetCustomCollections, CatalogCall (GetProducts 5)]"
    using r [THEN conjunct2, THEN conjunct2, THEN conjunct1, rule_format, of "''beauty products''"]
    by (simp add: first_match_eq beauty_products_flags beauty_products_collection shop_facts)
  have a: "snd (chat rules_only shop (Some ''beauty products'')) =
      [CatalogCall GetCustomCollections, CatalogCall (GetProducts 5)]"
    using r [THEN conjunct1] by (simp add: rules_only_facts fb)
  have b: "llm_calls (snd (chat rules_only shop (Some ''beauty products''))) = 0 \<and>
      catalog_calls (snd (chat rules_only shop (Some ''beauty products''))) \<le> 2"
    using r rules_only_facts(2) by blast
  have k: "pick_collection ''show me your kitchen products'' [kitchen] = (Some 7, ''Kitchen Essentials'')"
    by (simp add: pick_collection_def kitchen_message_collection kitchen_facts)
  have c: "snd (fallback shop ''show me your kitchen products'') =
      [CatalogCall GetCustomCollections, CatalogCall (GetCollectionProducts 7 5)]"
    using r [THEN conjunct2, THEN conjunct2, THEN conjunct1, rule_format,
        of "''show me your kitchen products''"]
    by (simp add: first_match_eq kitchen_message_flags kitchen_message_collection k shop_facts)
  have d: "snd (fallback shop ''products'') = [CatalogCall (GetProducts 5)]"
    using r [THEN conjunct2, THEN conjunct2, THEN conjunct1, rule_format, of "''products''"]
    by (simp add: first_match_eq products_flags products_message)
  have e: "snd (fallback shop ''Puffiness'') = []"
    using r [THEN conjunct2, THEN conjunct2, THEN conjunct1, rule_format, of "''Puffiness''"]
    by (simp add: first_match_eq puffiness_flags)
  have f: "snd (chat with_openai (provider_says (HttpResponse 200 answer)) (Some ''products'')) =
     [CatalogCall (GetProducts 10),
      LLMCall (openai_request None ''sk-test'' ''products''
                 (fst (build_context (provider_says (HttpResponse 200 answer)) ''products'')))]"
    using chat_call_bounds [of with_openai "provider_says (HttpResponse 200 answer)" "Some ''products''",
        THEN conjunct1]
    by (simp add: with_openai_facts products_message with_openai_answered truthy_def)
  have g: "llm_calls (snd (chat with_openai shop (Some ''beauty products''))) \<le> 1 \<and>
      catalog_calls (snd (chat with_openai shop (Some ''beauty products''))) \<le> 3"
    using chat_call_bounds [of with_openai shop "Some ''beauty products''"] by blast
  from rules_only_facts(2) a b c d e f g show ?thesis by (intro conjI) simp_all
qed

text \<open>
  The claim's bound of two catalog calls fails on the path it names: an LLM is configured,
  the message is about products and the LLM gives no answer. The request then issues three
  catalog calls.
\<close>

theorem three_catalog_calls:
  "snd (chat with_openai shop (Some ''beauty products'')) =
     [CatalogCall (GetProducts 10),
      LLMCall (openai_request None ''sk-test'' ''beauty products''
                 (fst (build_context shop ''beauty products''))),
      CatalogCall GetCustomCollections,
      CatalogCall (GetProducts 5)] \<and>
   catalog_calls (snd (chat with_openai shop (Some ''beauty products''))) = 3"
proof -
  have p: "test_i product_words ''beauty products''"
    using beauty_products_flags by (simp add: query_flags_def)
  have "snd (chat with_openai shop (Some ''beauty products'')) =
     [CatalogCall (GetProducts 10),
      LLMCall (openai_request None ''sk-test'' ''beauty products''
                 (fst (build_context shop ''beauty products''))),
      CatalogCall GetCustomCollections,
      CatalogCall (GetProducts 5)]"
    by (simp add: snd_chat snd_chat_try with_openai_facts snd_build_context p with_openai_shop
          truthy_def beauty_products_fallback)
  then show ?thesis by (simp add: catalog_calls_def)
qed

subsection \<open>The LLM invoker never throws\<close>

lemma get_Undefined [simp]:
  "get_prop JUndefined name = JUndefined" "get_prop JNull name = JUndefined"
  "get_first JUndefined = JUndefined" "get_first JNull = JUndefined"
  by (simp_all add: get_prop_def get_first_def)

lemma requestConfig_None:
  "requestConfig provider model k prompt ctx = None \<longleftrightarrow>
   provider \<noteq> ''openai'' \<and> provider \<noteq> ''anthropic'' \<and> provider \<noteq> ''gemini''"
  by (simp add: requestConfig_def)

text \<open>
  C4, as the code has it. \<open>callLLM\<close> never throws: it always returns a value. The value
  is \<open>null\<close>, or what the provider's 2xx response holds at the place of the reply text,
  returned as it is, whether it is a text or not. A transport error or a status outside
  2xx gives \<open>null\<close>; a response that lacks a field on the way to the text gives
  \<open>undefined\<close>; a provider name that is none of the three, or a missing configuration,
  gives \<open>null\<close> with no call issued.
\<close>

theorem callLLM_never_throws:
  "(\<exists>v. fst (callLLM e w prompt ctx) = Inr v) \<and>
   (fst (callLLM e w prompt ctx) = Inr JNull \<or>
    (\<exists>k p config st d.
       LLM_API_KEY e = Some k \<and> LLM_PROVIDER e = Some p \<and>
       requestConfig (toLowerCase p) (LLM_MODEL e) k prompt ctx = Some config \<and>
       transport w config = HttpResponse st d \<and> 200 \<le> st \<and> st < 300 \<and>
       callLLM e w prompt ctx = (Inr (extract_reply (toLowerCase p) d), [LLMCall config]))) \<and>
   (\<forall>config. snd (callLLM e w prompt ctx) = [LLMCall config] \<and>
      (transport w config = NetworkFailure \<or>
       (\<exists>st d. transport w config = HttpResponse st d \<and> \<not> (200 \<le> st \<and> st < 300)))
      \<longrightarrow> fst (callLLM e w prompt ctx) = Inr JNull) \<and>
   (\<forall>d. get_prop d ''choices'' = JUndefined \<or>
        get_first (get_prop d ''choices'') = JUndefined \<or>
        get_prop (get_first (get_prop d ''choices'')) ''message'' = JUndefined
        \<longrightarrow> extract_reply ''openai'' d = JUndefined) \<and>
   (\<forall>d. get_prop d ''content'' = JUndefined \<or> get_first (get_prop d ''content'') = JUndefined
        \<longrightarrow> extract_reply ''anthropic'' d = JUndefined) \<and>
   (\<forall>d. get_prop d ''candidates'' = JUndefined \<or>
        get_first (get_prop d ''candidates'') = JUndefined \<or>
        get_prop (get_first (get_prop d ''candidates'')) ''content'' = JUndefined \<or>
        get_prop (get_prop (get_first (get_prop d ''candidates'')) ''content'') ''parts'' = JUndefined \<or>
        get_first (get_prop (get_prop (get_first (get_prop d ''candidates'')) ''content'') ''parts'') =
          JUndefined
        \<longrightarrow> extract_reply ''gemini'' d = JUndefined) \<and>
   (\<forall>p. LLM_PROVIDER e = Some p \<and> toLowerCase p \<noteq> ''openai'' \<and> toLowerCase p \<noteq> ''anthropic'' \<and>
        toLowerCase p \<noteq> ''gemini''
        \<longrightarrow> callLLM e w prompt ctx = (Inr JNull, [])) \<and>
   (\<not> llm_configured e \<longrightarrow> callLLM e w prompt ctx = (Inr JNull, []))"
proof -
  have 1: "\<exists>v. fst (callLLM e w prompt ctx) = Inr v"
    by (rule callLLM_Inr)
  have 2: "fst (callLLM e w prompt ctx) = Inr JNull \<or>
    (\<exists>k p config st d.
       LLM_API_KEY e = Some k \<and> LLM_PROVIDER e = Some p \<and>
       requestConfig (toLowerCase p) (LLM_MODEL e) k prompt ctx = Some config \<and>
       transport w config = HttpResponse st d \<and> 200 \<le> st \<and> st < 300 \<and>
       callLLM e w prompt ctx = (Inr (extract_reply (toLowerCase p) d), [LLMCall config]))"
    by (auto simp: callLLM_eq split: option.splits transport_outcome.splits)
  have 3: "\<forall>config. snd (callLLM e w prompt ctx) = [LLMCall config] \<and>
      (transport w config = NetworkFailure \<or>
       (\<exists>st d. transport w config = HttpResponse st d \<and> \<not> (200 \<le> st \<and> st < 300)))
      \<longrightarrow> fst (callLLM e w prompt ctx) = Inr JNull"
    by (auto simp: callLLM_eq split: option.splits transport_outcome.splits)
  have 4: "\<forall>d. get_prop d ''choices'' = JUndefined \<or>
        get_first (get_prop d ''choices'') = JUndefined \<or>
        get_prop (get_first (get_prop d ''choices'')) ''message'' = JUndefined
        \<longrightarrow> extract_reply ''openai'' d = JUndefined"
    by (auto simp: extract_reply_def)
  have 5: "\<forall>d. get_prop d ''content'' = JUndefined \<or> get_first (get_prop d ''content'') = JUndefined
        \<longrightarrow> extract_reply ''anthropic'' d = JUndefined"
    by (auto simp: extract_reply_def)
  have 6: "\<forall>d. get_prop d ''candidates'' = JUndefined \<or>
        get_first (get_prop d ''candidates'') = JUndefined \<or>
        get_prop (get_first (get_prop d ''candidates'')) ''content'' = JUndefined \<or>
        get_prop (get_prop (get_first (get_prop d ''candidates'')) ''content'') ''parts'' = JUndefined \<or>
        get_first (get_prop (get_prop (get_first (get_prop d ''candidates'')) ''content'') ''parts'') =
          JUndefined
        \<longrightarrow> extract_reply ''gemini'' d = JUndefined"
    by (auto simp: extract_reply_def Let_def)
  have 7: "\<forall>p. LLM_PROVIDER e = Some p \<and> toLowerCase p \<noteq> ''openai'' \<and> toLowerCase p \<noteq> ''anthropic'' \<and>
        toLowerCase p \<noteq> ''gemini''
        \<longrightarrow> callLLM e w prompt ctx = (Inr JNull, [])"
    by (auto simp: callLLM_eq requestConfig_def split: option.splits)
  have 8: "\<not> llm_configured e \<longrightarrow> callLLM e w prompt ctx = (Inr JNull, [])"
    by (auto simp: callLLM_eq llm_configured_def truthy_str_def split: option.splits)
  from 1 2 3 4 5 6 7 8 show ?thesis by blast
qed

theorem callLLM_never_throws_witness:
  "callLLM with_openai (provider_says (HttpResponse 200 answer)) ''Hi'' base_context =
     (Inr (JStr ''Hello!''),
      [LLMCall (openai_request None ''sk-test'' ''Hi'' base_context)]) \<and>
   fst (callLLM with_openai (provider_says provider_overloaded) ''Hi'' base_context) = Inr JNull \<and>
   fst (callLLM with_openai (provider_says NetworkFailure) ''Hi'' base_context) = Inr JNull \<and>
   get_prop (JObj []) ''choices'' = JUndefined \<and>
   callLLM with_openai (provider_says (HttpResponse 200 (JObj []))) ''Hi'' base_context =
     (Inr JUndefined, [LLMCall (openai_request None ''sk-test'' ''Hi'' base_context)]) \<and>
   callLLM with_unknown (provider_says (HttpResponse 200 answer)) ''Hi'' base_context = (Inr JNull, []) \<and>
   \<not> llm_configured rules_only \<and>
   callLLM rules_only (provider_says (HttpResponse 200 answer)) ''Hi'' base_context = (Inr JNull, [])"
proof -
  let ?req = "openai_request None ''sk-test'' ''Hi'' base_context"
  have cfg: "requestConfig ''openai'' None ''sk-test'' ''Hi'' base_context = Some ?req"
    by (simp add: requestConfig_def)
  have calls: "snd (callLLM with_openai (provider_says outcome) ''Hi'' base_context) = [LLMCall ?req]"
    for outcome
    by (simp add: callLLM_eq with_openai_facts lower_openai cfg provider_says_facts
             split: transport_outcome.splits)
  have a: "callLLM with_openai (provider_says (HttpResponse 200 answer)) ''Hi'' base_context =
     (Inr (JStr ''Hello!''), [LLMCall ?req])"
    using callLLM_never_throws [of with_openai "provider_says (HttpResponse 200 answer)" "''Hi''" base_context]
    by (simp add: callLLM_eq with_openai_facts cfg provider_says_facts lower_openai openai_answer)
  have b: "fst (callLLM with_openai (provider_says provider_overloaded) ''Hi'' base_context) = Inr JNull"
    using callLLM_never_throws [of with_openai "provider_says provider_overloaded" "''Hi''" base_context]
      calls [of provider_overloaded]
    by (simp add: provider_says_facts provider_overloaded_def)
  have c: "fst (callLLM with_openai (provider_says NetworkFailure) ''Hi'' base_context) = Inr JNull"
    using callLLM_never_throws [of with_openai "provider_says NetworkFailure" "''Hi''" base_context]
      calls [of NetworkFailure]
    by (simp add: provider_says_facts)
  have d: "get_prop (JObj []) ''choices'' = JUndefined"
    by (simp add: get_prop_def)
  have d': "extract_reply ''openai'' (JObj []) = JUndefined"
    using callLLM_never_throws [of with_openai "provider_says NetworkFailure" "''Hi''" base_context] d
    by blast
  have e: "callLLM with_openai (provider_says (HttpResponse 200 (JObj []))) ''Hi'' base_context =
     (Inr JUndefined, [LLMCall ?req])"
    by (simp add: callLLM_eq with_openai_facts cfg provider_says_facts lower_openai d')
  have f: "callLLM with_unknown (provider_says (HttpResponse 200 answer)) ''Hi'' base_context = (Inr JNull, [])"
    using callLLM_never_throws [of with_unknown "provider_says (HttpResponse 200 answer)" "''Hi''" base_context]
    by (simp add: with_unknown_facts toLowerCase_def)
  have g: "callLLM rules_only (provider_says (HttpResponse 200 answer)) ''Hi'' base_context = (Inr JNull, [])"
    using callLLM_never_throws [of rules_only "provider_says (HttpResponse 200 answer)" "''Hi''" base_context]
      rules_only_facts
    by blast
  from a b c d e f g rules_only_facts show ?thesis by blast
qed

text \<open>
  The claim fails for a 2xx answer whose content is a number: \<open>callLLM\<close> returns the
  number, which is neither a text nor absent, and the endpoint sends it as the reply.
\<close>

theorem number_content_returned:
  "callLLM with_openai (provider_says (HttpResponse 200 number_answer)) ''Hi'' base_context =
     (Inr (JNum 42), [LLMCall (openai_request None ''sk-test'' ''Hi'' base_context)]) \<and>
   \<not> is_text (JNum 42) \<and> \<not> absent (JNum 42) \<and>
   chat with_openai (provider_says (HttpResponse 200 number_answer)) (Some ''Hi'') =
     (Response 200 (Reply (JNum 42)),
      [LLMCall (openai_request None ''sk-test'' ''Hi'' base_context)])"
proof -
  let ?w = "provider_says (HttpResponse 200 number_answer)"
  have x: "extract_reply ''openai'' number_answer = JNum 42"
    by (simp add: extract_reply_def number_answer_def get_prop_def get_first_def)
  have l: "callLLM with_openai ?w ''Hi'' base_context =
     (Inr (JNum 42), [LLMCall (openai_request None ''sk-test'' ''Hi'' base_context)])"
    by (simp add: callLLM_eq with_openai_facts provider_says_facts lower_openai requestConfig_def x)
  have h: "\<not> test_i product_words ''Hi''"
    by code_simp
  then have b: "build_context ?w ''Hi'' = (base_context, [])"
    by (simp add: build_context_def)
  have c: "chat with_openai ?w (Some ''Hi'') =
     (Response 200 (Reply (JNum 42)),
      [LLMCall (openai_request None ''sk-test'' ''Hi'' base_context)])"
    by (simp add: chat_def chat_try_def with_openai_facts b l and_then_def return_def truthy_def)
  have t: "\<not> is_text (JNum 42)" "\<not> absent (JNum 42)"
    by (simp_all add: is_text_def absent_def)
  from l t c show ?thesis by (intro conjI)
qed

subsection \<open>The two Gemini endpoints\<close>



subsection \<open>The price of a listed product\<close>

lemma is_digit_digit_char: "is_digit (digit_char d)"
proof -
  have "d mod 10 < length ''0123456789''" by simp
  then have "''0123456789'' ! (d mod 10) \<in> set ''0123456789''" by (rule nth_mem)
  then show ?thesis by (simp only: is_digit_def digit_char_def)
qed

lemma show_nat_digits: "list_all is_digit (show_nat n)"
proof (induction n rule: show_nat.induct)
  case (1 n)
  show ?case
  proof (cases "n < 10")
    case True
    then show ?thesis by (subst show_nat.simps) (simp add: is_digit_digit_char)
  next
    case False
    with 1 show ?thesis by (subst show_nat.simps) (simp add: is_digit_digit_char)
  qed
qed

lemma show_nat_nonempty: "show_nat n \<noteq> []"
  by (subst show_nat.simps) simp

lemma fixed2_two_decimal: "is_two_decimal (fixed2 a)"
proof -
  define m where "m = show_nat (nat \<lfloor>a * 100 + 1 / 2\<rfloor>)"
  define m' where "m' = (if length m \<le> 2 then replicate (3 - length m) CHR ''0'' @ m else m)"
  have zero: "is_digit CHR ''0''" by (simp add: is_digit_def)
  have digits: "list_all is_digit m'"
    using show_nat_digits [of "nat \<lfloor>a * 100 + 1 / 2\<rfloor>"] zero
    by (simp add: m'_def m_def list_all_iff)
  have len: "3 \<le> length m'"
    by (simp add: m'_def)
  define ip where "ip = take (length m' - 2) m'"
  define fp where "fp = drop (length m' - 2) m'"
  have "length fp = 2" using len by (simp add: fp_def)
  then obtain d1 d2 where fp: "fp = [d1, d2]"
    by (cases fp; cases "tl fp") auto
  have split: "m' = ip @ fp" by (simp add: ip_def fp_def)
  have ip: "ip \<noteq> []" using len by (auto simp: ip_def)
  have "fixed2 a = ip @ ''.'' @ fp"
    by (simp add: fixed2_def Let_def m_def m'_def ip_def fp_def)
  with fp digits split ip show ?thesis
    by (simp add: is_two_decimal_def list_all_iff)
qed

lemma currency_not_marker: "currency s \<noteq> ''Price not available''"
  by (simp add: currency_def pound_def)

lemma valid_price_Some: "valid_price v \<Longrightarrow> \<exists>s. v = Some s \<and> s \<noteq> [] \<and> positive (parseFloat s)"
  by (cases v) (simp_all add: valid_price_def)

lemma format_price_variant:
  assumes "find (\<lambda>v. valid_price (variant_price v)) vs = Some v" and "variants p = Some vs"
  shows "\<exists>s. variant_price v = Some s \<and> positive (parseFloat s) \<and> format_price p = currency s"
proof -
  from assms(1) have "valid_price (variant_price v)" by (auto simp: find_Some_iff)
  then obtain s where s: "variant_price v = Some s" "positive (parseFloat s)"
    using valid_price_Some by blast
  from assms(1) have "vs \<noteq> []" by auto
  with assms s have "format_price p = currency s"
    by (simp add: format_price_def Let_def currency_not_marker)
  with s show ?thesis by blast
qed

lemma format_price_no_variant:
  assumes "variants p = None \<or> (\<exists>vs. variants p = Some vs \<and> find (\<lambda>v. valid_price (variant_price v)) vs = None)"
  shows "format_price p =
     (if valid_price (price p) then (case price p of Some s \<Rightarrow> currency s | None \<Rightarrow> ''Price not available'')
      else ''Price not available'')"
  using assms by (auto simp: format_price_def Let_def valid_price_def split: option.splits)

lemma price_samples:
  "parseFloat ''12.5'' = Finite (25 / 2)"
  "toFixed2 (parseFloat ''12.5'') = ''12.50''"
  "valid_price (Some ''12.5'')"
  "\<not> valid_price (Some ''0.00'')"
  "valid_price (Some ''30'')"
  "toFixed2 (parseFloat ''30'') = ''30.00''"
  "valid_price (Some ''4.999'')"
  "toFixed2 (parseFloat ''4.999'') = ''5.00''"
  "valid_price (Some ''Infinity'')"
  "toFixed2 (parseFloat ''Infinity'') = ''Infinity''"
  by code_simp+

text \<open>
  C6, as the code has it. The price of a listed product follows three tiers: the first
  variant whose price is not empty and parses to a number above 0, written as the pound
  sign and the number's \<open>toFixed(2)\<close> text; else the product's own price field if it
  parses to a number above 0, written the same way; else \<open>Price not available\<close>. The
  \<open>toFixed(2)\<close> text is a two-decimal text for every finite number below \<open>10 ^ 21\<close>. A
  variant price \<open>12.5\<close> gives the pound sign and \<open>12.50\<close>; no variants and no own price
  give \<open>Price not available\<close>.
\<close>

theorem price_three_tiers:
  "(\<forall>vs v. variants p = Some vs \<and> find (\<lambda>v. valid_price (variant_price v)) vs = Some v \<longrightarrow>
      (\<exists>s. variant_price v = Some s \<and> positive (parseFloat s) \<and>
           format_price p = pound @ toFixed2 (parseFloat s))) \<and>
   (variants p = None \<or>
    (\<exists>vs. variants p = Some vs \<and> find (\<lambda>v. valid_price (variant_price v)) vs = None) \<longrightarrow>
      (valid_price (price p) \<longrightarrow>
         (\<exists>s. price p = Some s \<and> positive (parseFloat s) \<and>
              format_price p = pound @ toFixed2 (parseFloat s))) \<and>
      (\<not> valid_price (price p) \<longrightarrow> format_price p = ''Price not available'')) \<and>
   (\<forall>s r. parseFloat s = Finite r \<and> 0 < r \<and> r < 10 ^ 21 \<longrightarrow>
      is_two_decimal (toFixed2 (parseFloat s))) \<and>
   (variants p = Some [\<lparr>variant_price = Some ''12.5''\<rparr>] \<longrightarrow> format_price p = pound @ ''12.50'') \<and>
   ((variants p = None \<or> variants p = Some []) \<and> price p = None \<longrightarrow>
      format_price p = ''Price not available'')"
proof -
  have 1: "\<forall>vs v. variants p = Some vs \<and> find (\<lambda>v. valid_price (variant_price v)) vs = Some v \<longrightarrow>
      (\<exists>s. variant_price v = Some s \<and> positive (parseFloat s) \<and>
           format_price p = pound @ toFixed2 (parseFloat s))"
    using format_price_variant [of _ _ p] by (fastforce simp: currency_def)
  have 2: "variants p = None \<or>
    (\<exists>vs. variants p = Some vs \<and> find (\<lambda>v. valid_price (variant_price v)) vs = None) \<longrightarrow>
      (valid_price (price p) \<longrightarrow>
         (\<exists>s. price p = Some s \<and> positive (parseFloat s) \<and>
              format_price p = pound @ toFixed2 (parseFloat s))) \<and>
      (\<not> valid_price (price p) \<longrightarrow> format_price p = ''Price not available'')"
  proof
    assume a: "variants p = None \<or>
      (\<exists>vs. variants p = Some vs \<and> find (\<lambda>v. valid_price (variant_price v)) vs = None)"
    show "(valid_price (price p) \<longrightarrow>
         (\<exists>s. price p = Some s \<and> positive (parseFloat s) \<and>
              format_price p = pound @ toFixed2 (parseFloat s))) \<and>
      (\<not> valid_price (price p) \<longrightarrow> format_price p = ''Price not available'')"
      using format_price_no_variant [OF a] valid_price_Some [of "price p"]
      by (auto simp: currency_def)
  qed
  have 3: "\<forall>s r. parseFloat s = Finite r \<and> 0 < r \<and> r < 10 ^ 21 \<longrightarrow>
      is_two_decimal (toFixed2 (parseFloat s))"
    by (auto simp: toFixed2_def fixed2_two_decimal)
  have 4: "variants p = Some [\<lparr>variant_price = Some ''12.5''\<rparr>] \<longrightarrow> format_price p = pound @ ''12.50''"
    by (simp add: format_price_def Let_def price_samples(2,3) currency_def pound_def)
  have 5: "(variants p = None \<or> variants p = Some []) \<and> price p = None \<longrightarrow>
      format_price p = ''Price not available''"
    by (auto simp: format_price_def Let_def valid_price_def)
  from 1 2 3 4 5 show ?thesis by blast
qed

lemma sample_products:
  "variants serum = Some [\<lparr>variant_price = Some ''12.5''\<rparr>]"
  "variants mug = None" "price mug = None"
  "variants candle = Some []" "price candle = None"
  "variants pan = Some [\<lparr>variant_price = Some ''0.00''\<rparr>, \<lparr>variant_price = Some ''30''\<rparr>]"
  "variants whisk = Some [\<lparr>variant_price = None\<rparr>]" "price whisk = Some ''4.999''"
  "variants gold_bar = Some [\<lparr>variant_price = Some ''Infinity''\<rparr>]"
  "title serum = ''Serum''" "title candle = ''Candle''" "title pan = ''Pan''" "title whisk = ''Whisk''"
  by (simp_all add: serum_def mug_def candle_def pan_def whisk_def gold_bar_def)

theorem price_three_tiers_witness:
  "format_price serum = pound @ ''12.50'' \<and>
   format_price mug = ''Price not available'' \<and>
   format_price candle = ''Price not available'' \<and>
   find (\<lambda>v. valid_price (variant_price v)) [\<lparr>variant_price = Some ''0.00''\<rparr>, \<lparr>variant_price = Some ''30''\<rparr>] =
     Some \<lparr>variant_price = Some ''30''\<rparr> \<and>
   format_price pan = pound @ ''30.00'' \<and>
   valid_price (price whisk) \<and>
   format_price whisk = pound @ ''5.00'' \<and>
   parseFloat ''12.5'' = Finite (25 / 2) \<and> is_two_decimal (toFixed2 (parseFloat ''12.5''))"
proof -
  have a: "format_price serum = pound @ ''12.50''"
    by (rule price_three_tiers [of serum, THEN conjunct2, THEN conjunct2, THEN conjunct2,
          THEN conjunct1, rule_format, OF sample_products(1)])
  have b: "format_price mug = ''Price not available''"
    by (rule price_three_tiers [of mug, THEN conjunct2, THEN conjunct2, THEN conjunct2,
          THEN conjunct2, rule_format, OF conjI [OF disjI1 [OF sample_products(2)] sample_products(3)]])
  have c: "format_price candle = ''Price not available''"
    by (rule price_three_tiers [of candle, THEN conjunct2, THEN conjunct2, THEN conjunct2,
          THEN conjunct2, rule_format, OF conjI [OF disjI2 [OF sample_products(4)] sample_products(5)]])
  have f: "find (\<lambda>v. valid_price (variant_price v)) [\<lparr>variant_price = Some ''0.00''\<rparr>, \<lparr>variant_price = Some ''30''\<rparr>] =
     Some \<lparr>variant_price = Some ''30''\<rparr>"
    by (simp add: price_samples(4,5))
  have d: "format_price pan = pound @ ''30.00''"
  proof -
    from price_three_tiers [of pan, THEN conjunct1, rule_format, OF conjI [OF sample_products(6) f]]
    obtain s where "variant_price \<lparr>variant_price = Some ''30''\<rparr> = Some s"
      and "format_price pan = pound @ toFixed2 (parseFloat s)" by blast
    then show ?thesis by (auto simp: price_samples(6))
  qed
  have w: "valid_price (price whisk)"
    by (simp add: sample_products(8) price_samples(7))
  have n: "find (\<lambda>v. valid_price (variant_price v)) [\<lparr>variant_price = None\<rparr>] = None"
    by (simp add: valid_price_def)
  have e: "format_price whisk = pound @ ''5.00''"
  proof -
    from sample_products(7) n
    have "variants whisk = None \<or>
      (\<exists>vs. variants whisk = Some vs \<and> find (\<lambda>v. valid_price (variant_price v)) vs = None)"
      by blast
    from price_three_tiers [of whisk, THEN conjunct2, THEN conjunct1, rule_format, OF this,
        THEN conjunct1, rule_format, OF w]
    obtain s where "price whisk = Some s" and "format_price whisk = pound @ toFixed2 (parseFloat s)"
      by blast
    then show ?thesis by (auto simp: sample_products(8) price_samples(8))
  qed
  have g: "is_two_decimal (toFixed2 (parseFloat ''12.5''))"
    using price_three_tiers [of serum, THEN conjunct2, THEN conjunct2, THEN conjunct1, rule_format,
        of "''12.5''" "25 / 2"] price_samples(1)
    by simp
  from a b c f d w e g price_samples(1) show ?thesis by (intro conjI)
qed

text \<open>
  The claim fails for a variant price \<open>Infinity\<close>: it parses to a number above 0 and is
  written as the pound sign and \<open>Infinity\<close>, which is no two-decimal text.
\<close>

theorem infinite_price_not_two_decimal:
  "valid_price (Some ''Infinity'') \<and> format_price gold_bar = pound @ ''Infinity'' \<and>
   \<not> is_two_decimal ''Infinity''"
proof -
  have "format_price gold_bar = pound @ ''Infinity''"
    by (simp add: format_price_def Let_def sample_products(9) price_samples(9,10) currency_def
          pound_def)
  moreover have "\<not> is_two_decimal ''Infinity''"
    by (simp add: is_two_decimal_def is_digit_def)
  ultimately show ?thesis using price_samples(9) by (intro conjI)
qed

subsection \<open>Listing the products of a collection\<close>

lemma join_sublist: "x \<in> set xs \<Longrightarrow> sublist x (join sep xs)"
proof (induction sep xs rule: join.induct)
  case (1 sep)
  then show ?case by simp
next
  case (2 sep y)
  then show ?case by simp
next
  case (3 sep y z zs)
  show ?case
  proof (cases "x = y")
    case True
    then show ?thesis by (simp add: sublist_append prefix_def)
  next
    case False
    with 3 have "sublist x (join sep (z # zs))" by simp
    then show ?thesis by (simp add: sublist_append)
  qed
qed

lemma title_in_productList:
  assumes "p \<in> set ps"
  shows "sublist (bullet @ '' '' @ title p) (productList ps)"
proof -
  have "sublist (product_line p) (productList ps)"
    using assms by (simp add: productList_def join_sublist)
  moreover have "sublist (bullet @ '' '' @ title p) (product_line p)"
    by (simp add: product_line_def prefix_imp_sublist)
  ultimately show ?thesis by (rule sublist_order.order.trans [rotated])
qed

lemma title_in_listing:
  assumes "p \<in> set ps"
  shows "sublist (bullet @ '' '' @ title p) (front @ productList ps @ rear)"
  using title_in_productList [OF assms] by (simp add: sublist_append)

lemma collection_empty_reply_differs:
  "''I couldn't find any products in the '' @ name @ '' collection. Please check back later.'' \<noteq>
   ''I couldn't find any products in the store. Please check back later.''"
proof
  assume "''I couldn't find any products in the '' @ name @ '' collection. Please check back later.'' =
    ''I couldn't find any products in the store. Please check back later.''"
  then have "length (''I couldn't find any products in the '' @ name @
      '' collection. Please check back later.'') =
    length ''I couldn't find any products in the store. Please check back later.''"
    by (rule arg_cong)
  then show False by simp
qed

lemma pick_collection_found:
  assumes "beautyCollectionQuery message \<or> kitchenCollectionQuery message"
    and "find (\<lambda>c. test_i (if beautyCollectionQuery message
                             then [''beauty'', ''beauty essentials'']
                             else [''kitchen'', ''kitchen essentials'']) (collection_title c)) cs = Some c"
  shows "pick_collection message cs = (Some (collection_id c), collection_title c)"
  using assms by (auto simp: pick_collection_def)

lemma valid_price_None: "\<not> valid_price None"
  by (simp add: valid_price_def)

lemma sample_prices:
  "format_price serum = pound @ ''12.50''"
  "format_price candle = ''Price not available''"
  "format_price pan = pound @ ''30.00''"
  "format_price whisk = pound @ ''5.00''"
  by (simp_all add: format_price_def Let_def sample_products price_samples(2-8) currency_def
        pound_def valid_price_None)

text \<open>
  C7, as the code has it. Take a generic-product message with collection vocabulary and
  let the catalog answer the collections lookup with a collection whose title matches the
  title pattern of the message: \<open>beauty|beauty essentials\<close> whenever the message has
  beauty words, \<open>kitchen|kitchen essentials\<close> otherwise (so the title has the word
  \<open>beauty\<close>, or the word \<open>kitchen\<close>, in any case of letters). Let the first such
  collection have an id other than 0 and let the catalog answer the product lookup scoped
  to it. Then the reply is built from the products of that collection only: the calls are
  the collections lookup and the lookup scoped to the collection, a listing that is not
  empty shows every product title after a bullet and a space, and an empty listing gives a
  message that names the collection and differs from the message for an empty store.
\<close>

theorem collection_scoped_listing:
  assumes "first_match (query_flags message) = GenericProduct"
    and "beautyCollectionQuery message \<or> kitchenCollectionQuery message"
    and "catalog w GetCustomCollections = Inr cb"
    and "find (\<lambda>c. test_i (if beautyCollectionQuery message
                             then [''beauty'', ''beauty essentials'']
                             else [''kitchen'', ''kitchen essentials'']) (collection_title c))
           (case custom_collections cb of None \<Rightarrow> [] | Some cs \<Rightarrow> cs) = Some c"
    and "collection_id c \<noteq> 0"
    and "catalog w (GetCollectionProducts (collection_id c) 5) = Inr pb"
    and "ps = (case products pb of None \<Rightarrow> [] | Some ps \<Rightarrow> ps)"
  shows "fallback w message =
      (Inr (Response 200 (Reply (JStr
         (if ps = []
          then ''I couldn't find any products in the '' @ collection_title c @
               '' collection. Please check back later.''
          else ''Here are some products from our '' @ collection_title c @
               '' collection:\<newline>\<newline>'' @ productList ps @
               ''\<newline>\<newline>Would you like more information about any of these products?'')))),
       [CatalogCall GetCustomCollections, CatalogCall (GetCollectionProducts (collection_id c) 5)]) \<and>
    (\<forall>p \<in> set ps.
       sublist (bullet @ '' '' @ title p)
         (''Here are some products from our '' @ collection_title c @
          '' collection:\<newline>\<newline>'' @ productList ps @
          ''\<newline>\<newline>Would you like more information about any of these products?'')) \<and>
    ''I couldn't find any products in the '' @ collection_title c @
      '' collection. Please check back later.'' \<noteq>
    ''I couldn't find any products in the store. Please check back later.''"
proof -
  have pq: "fallback w message = product_query w message"
    using assms(1) by (simp add: fallback_compose compose_def)
  have fc: "find_collection w message =
      (Inr (Some (collection_id c), collection_title c), [CatalogCall GetCustomCollections])"
    using assms(2,3) pick_collection_found [OF assms(2,4)] by (simp add: find_collection_eq)
  have fp: "fetch_products w (Some (collection_id c)) =
      (Inr ps, [CatalogCall (GetCollectionProducts (collection_id c) 5)])"
    using assms(5,6,7) by (simp add: fetch_products_eq)
  have "fallback w message =
      (Inr (Response 200 (Reply (JStr
         (if ps = []
          then ''I couldn't find any products in the '' @ collection_title c @
               '' collection. Please check back later.''
          else ''Here are some products from our '' @ collection_title c @
               '' collection:\<newline>\<newline>'' @ productList ps @
               ''\<newline>\<newline>Would you like more information about any of these products?'')))),
       [CatalogCall GetCustomCollections, CatalogCall (GetCollectionProducts (collection_id c) 5)])"
    using assms(5) by (simp add: pq product_query_eq fc fp empty_reply_def listing_reply_def truthy_id_def)
  moreover have "\<forall>p \<in> set ps.
       sublist (bullet @ '' '' @ title p)
         (''Here are some products from our '' @ collection_title c @
          '' collection:\<newline>\<newline>'' @ productList ps @
          ''\<newline>\<newline>Would you like more information about any of these products?'')"
  proof
    fix p assume "p \<in> set ps"
    from title_in_listing [OF this, of "''Here are some products from our '' @ collection_title c @
          '' collection:\<newline>\<newline>''" "''\<newline>\<newline>Would you like more information about any of these products?''"]
    show "sublist (bullet @ '' '' @ title p)
         (''Here are some products from our '' @ collection_title c @
          '' collection:\<newline>\<newline>'' @ productList ps @
          ''\<newline>\<newline>Would you like more information about any of these products?'')"
      by simp
  qed
  ultimately show ?thesis using collection_empty_reply_differs by blast
qed

theorem collection_scoped_listing_witness:
  "first_match (query_flags ''show me your kitchen products'') = GenericProduct \<and>
   kitchenCollectionQuery ''show me your kitchen products'' \<and>
   fallback shop ''show me your kitchen products'' =
     (Inr (Response 200 (Reply (JStr
        (''Here are some products from our Kitchen Essentials collection:\<newline>\<newline>'' @
         bullet @ '' Pan: '' @ pound @ ''30.00\<newline>'' @
         bullet @ '' Whisk: '' @ pound @ ''5.00'' @
         ''\<newline>\<newline>Would you like more information about any of these products?'')))),
      [CatalogCall GetCustomCollections, CatalogCall (GetCollectionProducts 7 5)]) \<and>
   sublist (bullet @ '' Pan'')
     (''Here are some products from our Kitchen Essentials collection:\<newline>\<newline>'' @
      productList [pan, whisk] @
      ''\<newline>\<newline>Would you like more information about any of these products?'') \<and>
   fallback (stocked []) ''show me your kitchen products'' =
     (Inr (Response 200 (Reply (JStr
        ''I couldn't find any products in the Kitchen Essentials collection. Please check back later.''))),
      [CatalogCall GetCustomCollections, CatalogCall (GetCollectionProducts 7 5)])"
proof -
  let ?m = "''show me your kitchen products''"
  have 1: "first_match (query_flags ?m) = GenericProduct"
    by (simp add: first_match_eq kitchen_message_flags)
  have 2: "beautyCollectionQuery ?m \<or> kitchenCollectionQuery ?m"
    by (simp add: kitchen_message_collection)
  have 3: "catalog (stocked kps) GetCustomCollections =
      Inr \<lparr>products = None, custom_collections = Some [kitchen]\<rparr>" for kps
    by (simp add: stocked_facts)
  have 4: "find (\<lambda>c. test_i (if beautyCollectionQuery ?m
                             then [''beauty'', ''beauty essentials'']
                             else [''kitchen'', ''kitchen essentials'']) (collection_title c))
           (case custom_collections \<lparr>products = None, custom_collections = Some [kitchen]\<rparr> of
              None \<Rightarrow> [] | Some cs \<Rightarrow> cs) = Some kitchen"
    by (simp add: kitchen_message_collection kitchen_facts)
  have 5: "collection_id kitchen \<noteq> 0"
    by (simp add: kitchen_facts)
  have 6: "catalog (stocked kps) (GetCollectionProducts (collection_id kitchen) 5) =
      Inr \<lparr>products = Some kps, custom_collections = None\<rparr>" for kps
    by (simp add: stocked_facts)
  have 7: "kps = (case products \<lparr>products = Some kps, custom_collections = None\<rparr> of
                   None \<Rightarrow> [] | Some ps \<Rightarrow> ps)" for kps :: "product list"
    by simp
  note full = collection_scoped_listing [OF 1 2 3 4 5 6 7, of "[pan, whisk]"]
  note none = collection_scoped_listing [OF 1 2 3 4 5 6 7, of "[]"]
  have list: "productList [pan, whisk] =
      bullet @ '' Pan: '' @ pound @ ''30.00\<newline>'' @ bullet @ '' Whisk: '' @ pound @ ''5.00''"
    by (simp add: productList_def product_line_def sample_prices sample_products)
  have a: "fallback shop ?m =
     (Inr (Response 200 (Reply (JStr
        (''Here are some products from our Kitchen Essentials collection:\<newline>\<newline>'' @
         bullet @ '' Pan: '' @ pound @ ''30.00\<newline>'' @
         bullet @ '' Whisk: '' @ pound @ ''5.00'' @
         ''\<newline>\<newline>Would you like more information about any of these products?'')))),
      [CatalogCall GetCustomCollections, CatalogCall (GetCollectionProducts 7 5)])"
    using full [THEN conjunct1] by (simp add: shop_def kitchen_facts list)
  have b: "sublist (bullet @ '' Pan'')
     (''Here are some products from our Kitchen Essentials collection:\<newline>\<newline>'' @
      productList [pan, whisk] @
      ''\<newline>\<newline>Would you like more information about any of these products?'')"
    using full [THEN conjunct2, THEN conjunct1, rule_format, of pan]
    by (simp add: kitchen_facts sample_products)
  have c: "fallback (stocked []) ?m =
     (Inr (Response 200 (Reply (JStr
        ''I couldn't find any products in the Kitchen Essentials collection. Please check back later.''))),
      [CatalogCall GetCustomCollections, CatalogCall (GetCollectionProducts 7 5)])"
    using none [THEN conjunct1] by (simp add: kitchen_facts)
  from 1 kitchen_message_collection(2) a b c show ?thesis by (intro conjI)
qed

text \<open>
  The claim fails for a message with beauty and kitchen words when the catalog has a
  kitchen collection and no beauty collection: the kitchen collection is not looked for,
  and the reply lists the products of the whole store.
\<close>

theorem kitchen_collection_skipped_after_beauty:
  "first_match (query_flags ''show me your beauty and kitchen products'') = GenericProduct \<and>
   kitchenCollectionQuery ''show me your beauty and kitchen products'' \<and>
   catalog shop GetCustomCollections = Inr \<lparr>products = None, custom_collections = Some [kitchen]\<rparr> \<and>
   test_i [''kitchen'', ''kitchen essentials''] (collection_title kitchen) \<and>
   fallback shop ''show me your beauty and kitchen products'' =
     (Inr (Response 200 (Reply (JStr
        (''Here are some products from our store:\<newline>\<newline>'' @
         bullet @ '' Serum: '' @ pound @ ''12.50\<newline>'' @
         bullet @ '' Candle: Price not available'' @
         ''\<newline>\<newline>Would you like more information about any of these products?'')))),
      [CatalogCall GetCustomCollections, CatalogCall (GetProducts 5)])"
proof -
  let ?m = "''show me your beauty and kitchen products''"
  have 1: "first_match (query_flags ?m) = GenericProduct"
    by (simp add: first_match_eq both_message_flags)
  have 2: "test_i [''kitchen'', ''kitchen essentials''] (collection_title kitchen)"
    by (simp add: kitchen_facts kitchen_message_collection)
  have 3: "pick_collection ?m [kitchen] = (None, [])"
    by (simp add: pick_collection_def both_message_collection kitchen_facts kitchen_message_collection)
  have 4: "fallback shop ?m = product_query shop ?m"
    using 1 by (simp add: fallback_compose compose_def)
  have list: "productList [serum, candle] =
      bullet @ '' Serum: '' @ pound @ ''12.50\<newline>'' @ bullet @ '' Candle: Price not available''"
    by (simp add: productList_def product_line_def sample_prices sample_products)
  have 5: "fallback shop ?m =
     (Inr (Response 200 (Reply (JStr
        (''Here are some products from our store:\<newline>\<newline>'' @
         bullet @ '' Serum: '' @ pound @ ''12.50\<newline>'' @
         bullet @ '' Candle: Price not available'' @
         ''\<newline>\<newline>Would you like more information about any of these products?'')))),
      [CatalogCall GetCustomCollections, CatalogCall (GetProducts 5)])"
    by (simp add: 4 product_query_eq find_collection_eq fetch_products_eq both_message_collection
          shop_facts 3 listing_reply_def truthy_id_def list)
  from 1 both_message_collection(2) shop_facts(2) 2 5 show ?thesis by (intro conjI)
qed

subsection \<open>Failures of the catalog\<close>

lemma chat_catch_not_reply: "body_of (chat_catch err) \<noteq> Reply v"
  by (simp add: chat_catch_def errorHandler_def split: option.splits)

lemma build_context_failed:
  "test_i product_words m \<Longrightarrow> catalog w (GetProducts 10) = Inl err \<Longrightarrow>
   build_context w m = (base_context, [CatalogCall (GetProducts 10)])"
  by (simp add: build_context_def)

lemma chat_with_llm:
  assumes "shopify e" and "llm_configured e" and "m \<noteq> []"
    and "build_context w m = (ctx, cs)" and "callLLM e w m ctx = (Inr v, cs')"
  shows "chat e w (Some m) =
     (if truthy v then (Response 200 (Reply v), cs @ cs')
      else case fallback w m of
             (Inl err, cs'') \<Rightarrow> (chat_catch err, cs @ cs' @ cs'')
           | (Inr r, cs'') \<Rightarrow> (r, cs @ cs' @ cs''))"
  using assms
  by (auto simp: chat_def chat_try_def and_then_def return_def split: prod.splits sum.splits)

lemma chat_catch_unavailable:
  "chat_catch unavailable =
     Response 500 (ErrorObject ''Service Unavailable'' None (Some ''ShopifyAPIError''))"
  by (simp add: chat_catch_def unavailable_def or_500_def)

lemma chat_catch_error_object: "\<exists>msg st ty. body_of (chat_catch err) = ErrorObject msg st ty"
  by (simp add: chat_catch_def errorHandler_def split: option.splits)

lemma chat_fallback_failed:
  assumes "shopify e" and "m \<noteq> []" and "fallback w m = (Inl err, cs)"
  shows "(\<not> llm_configured e \<longrightarrow> chat e w (Some m) = (chat_catch err, cs)) \<and>
    (llm_configured e \<longrightarrow>
       (\<exists>v cs'. callLLM e w m (fst (build_context w m)) = (Inr v, cs') \<and>
          chat e w (Some m) =
            (if truthy v then (Response 200 (Reply v), snd (build_context w m) @ cs')
             else (chat_catch err, snd (build_context w m) @ cs' @ cs))))"
proof (intro conjI impI)
  assume "\<not> llm_configured e"
  with assms show "chat e w (Some m) = (chat_catch err, cs)"
    by (simp add: chat_without_llm)
next
  assume c: "llm_configured e"
  have b: "build_context w m = (fst (build_context w m), snd (build_context w m))"
    by simp
  obtain v where "fst (callLLM e w m (fst (build_context w m))) = Inr v"
    using callLLM_Inr by blast
  then have l: "callLLM e w m (fst (build_context w m)) =
      (Inr v, snd (callLLM e w m (fst (build_context w m))))"
    by (simp add: prod_eq_iff)
  from chat_with_llm [OF assms(1) c assms(2) b l] assms(3)
  have "chat e w (Some m) =
      (if truthy v
       then (Response 200 (Reply v),
             snd (build_context w m) @ snd (callLLM e w m (fst (build_context w m))))
       else (chat_catch err,
             snd (build_context w m) @ snd (callLLM e w m (fst (build_context w m))) @ cs))"
    by simp
  with l show "\<exists>v cs'. callLLM e w m (fst (build_context w m)) = (Inr v, cs') \<and>
      chat e w (Some m) =
        (if truthy v then (Response 200 (Reply v), snd (build_context w m) @ cs')
         else (chat_catch err, snd (build_context w m) @ cs' @ cs))"
    by blast
qed

text \<open>
  C8, as the code has it. When the product lookup for the LLM context fails, the context
  has no products and the request goes on: the LLM is called with the plain context, its
  answer is the reply, and without an answer the rule-based fallback runs. When a catalog
  call of the fallback's product branch fails (the collections lookup or the product
  lookup), the fallback throws the error. A request with a message that is not empty
  whose fallback throws ends with an error response, whose body is an error object and no
  reply: always with no LLM configured, and with an LLM configured exactly when
  \<open>callLLM\<close> gave no answer, for an answer of \<open>callLLM\<close> is sent as the reply before
  the fallback runs.
\<close>

theorem catalog_failures:
  "(test_i product_words m \<and> catalog w (GetProducts 10) = Inl err \<longrightarrow>
      build_context w m = (base_context, [CatalogCall (GetProducts 10)]) \<and>
      (shopify e \<and> llm_configured e \<and> m \<noteq> [] \<longrightarrow>
         (\<exists>v cs. callLLM e w m base_context = (Inr v, cs) \<and>
            (truthy v \<longrightarrow>
               chat e w (Some m) = (Response 200 (Reply v), CatalogCall (GetProducts 10) # cs)) \<and>
            (\<not> truthy v \<longrightarrow>
               chat e w (Some m) =
                 (case fallback w m of
                    (Inl err', cs') \<Rightarrow> (chat_catch err', CatalogCall (GetProducts 10) # cs @ cs')
                  | (Inr r, cs') \<Rightarrow> (r, CatalogCall (GetProducts 10) # cs @ cs')))))) \<and>
   (first_match (query_flags m) = GenericProduct \<longrightarrow>
      ((beautyCollectionQuery m \<or> kitchenCollectionQuery m) \<and>
       catalog w GetCustomCollections = Inl err \<longrightarrow>
         fallback w m = (Inl err, [CatalogCall GetCustomCollections])) \<and>
      (\<not> beautyCollectionQuery m \<and> \<not> kitchenCollectionQuery m \<and>
       catalog w (GetProducts 5) = Inl err \<longrightarrow>
         fallback w m = (Inl err, [CatalogCall (GetProducts 5)])) \<and>
      ((beautyCollectionQuery m \<or> kitchenCollectionQuery m) \<and>
       catalog w GetCustomCollections = Inr cb \<and>
       pick_collection m (case custom_collections cb of None \<Rightarrow> [] | Some cs \<Rightarrow> cs) =
         (collectionId, collectionName) \<and>
       catalog w (case collectionId of
                    None \<Rightarrow> GetProducts 5
                  | Some i \<Rightarrow> if i \<noteq> 0 then GetCollectionProducts i 5 else GetProducts 5) = Inl err \<longrightarrow>
         fallback w m =
           (Inl err,
            [CatalogCall GetCustomCollections,
             CatalogCall (case collectionId of
                            None \<Rightarrow> GetProducts 5
                          | Some i \<Rightarrow> if i \<noteq> 0 then GetCollectionProducts i 5 else GetProducts 5)]))) \<and>
   (shopify e \<and> m \<noteq> [] \<and> fallback w m = (Inl err, calls) \<longrightarrow>
      (\<not> llm_configured e \<longrightarrow> chat e w (Some m) = (chat_catch err, calls)) \<and>
      (llm_configured e \<longrightarrow>
         (\<exists>v cs. callLLM e w m (fst (build_context w m)) = (Inr v, cs) \<and>
            chat e w (Some m) =
              (if truthy v then (Response 200 (Reply v), snd (build_context w m) @ cs)
               else (chat_catch err, snd (build_context w m) @ cs @ calls))))) \<and>
   (\<exists>msg st ty. body_of (chat_catch err) = ErrorObject msg st ty) \<and>
   (\<forall>v. body_of (chat_catch err) \<noteq> Reply v)"
proof -
  have a: "test_i product_words m \<and> catalog w (GetProducts 10) = Inl err \<longrightarrow>
      build_context w m = (base_context, [CatalogCall (GetProducts 10)]) \<and>
      (shopify e \<and> llm_configured e \<and> m \<noteq> [] \<longrightarrow>
         (\<exists>v cs. callLLM e w m base_context = (Inr v, cs) \<and>
            (truthy v \<longrightarrow>
               chat e w (Some m) = (Response 200 (Reply v), CatalogCall (GetProducts 10) # cs)) \<and>
            (\<not> truthy v \<longrightarrow>
               chat e w (Some m) =
                 (case fallback w m of
                    (Inl err', cs') \<Rightarrow> (chat_catch err', CatalogCall (GetProducts 10) # cs @ cs')
                  | (Inr r, cs') \<Rightarrow> (r, CatalogCall (GetProducts 10) # cs @ cs')))))"
  proof (intro impI conjI)
    assume h: "test_i product_words m \<and> catalog w (GetProducts 10) = Inl err"
    then show b: "build_context w m = (base_context, [CatalogCall (GetProducts 10)])"
      by (simp add: build_context_failed)
    assume c: "shopify e \<and> llm_configured e \<and> m \<noteq> []"
    obtain v where v: "fst (callLLM e w m base_context) = Inr v"
      using callLLM_Inr by blast
    define cs where "cs = snd (callLLM e w m base_context)"
    have l: "callLLM e w m base_context = (Inr v, cs)"
      using v by (simp add: cs_def prod_eq_iff)
    from c have "shopify e" "llm_configured e" "m \<noteq> []" by simp_all
    from chat_with_llm [OF this b l]
    have "chat e w (Some m) =
        (if truthy v then (Response 200 (Reply v), [CatalogCall (GetProducts 10)] @ cs)
         else case fallback w m of
                (Inl err, cs'') \<Rightarrow> (chat_catch err, [CatalogCall (GetProducts 10)] @ cs @ cs'')
              | (Inr r, cs'') \<Rightarrow> (r, [CatalogCall (GetProducts 10)] @ cs @ cs''))" .
    with l show "\<exists>v cs. callLLM e w m base_context = (Inr v, cs) \<and>
            (truthy v \<longrightarrow>
               chat e w (Some m) = (Response 200 (Reply v), CatalogCall (GetProducts 10) # cs)) \<and>
            (\<not> truthy v \<longrightarrow>
               chat e w (Some m) =
                 (case fallback w m of
                    (Inl err', cs') \<Rightarrow> (chat_catch err', CatalogCall (GetProducts 10) # cs @ cs')
                  | (Inr r, cs') \<Rightarrow> (r, CatalogCall (GetProducts 10) # cs @ cs')))"
      by (auto split: prod.splits sum.splits)
  qed
  have b: "first_match (query_flags m) = GenericProduct \<longrightarrow>
      ((beautyCollectionQuery m \<or> kitchenCollectionQuery m) \<and>
       catalog w GetCustomCollections = Inl err \<longrightarrow>
         fallback w m = (Inl err, [CatalogCall GetCustomCollections])) \<and>
      (\<not> beautyCollectionQuery m \<and> \<not> kitchenCollectionQuery m \<and>
       catalog w (GetProducts 5) = Inl err \<longrightarrow>
         fallback w m = (Inl err, [CatalogCall (GetProducts 5)])) \<and>
      ((beautyCollectionQuery m \<or> kitchenCollectionQuery m) \<and>
       catalog w GetCustomCollections = Inr cb \<and>
       pick_collection m (case custom_collections cb of None \<Rightarrow> [] | Some cs \<Rightarrow> cs) =
         (collectionId, collectionName) \<and>
       catalog w (case collectionId of
                    None \<Rightarrow> GetProducts 5
                  | Some i \<Rightarrow> if i \<noteq> 0 then GetCollectionProducts i 5 else GetProducts 5) = Inl err \<longrightarrow>
         fallback w m =
           (Inl err,
            [CatalogCall GetCustomCollections,
             CatalogCall (case collectionId of
                            None \<Rightarrow> GetProducts 5
                          | Some i \<Rightarrow> if i \<noteq> 0 then GetCollectionProducts i 5 else GetProducts 5)]))"
    by (auto simp: fallback_compose compose_def product_query_eq find_collection_eq
          fetch_products_eq Let_def)
  have c: "shopify e \<and> m \<noteq> [] \<and> fallback w m = (Inl err, calls) \<longrightarrow>
      (\<not> llm_configured e \<longrightarrow> chat e w (Some m) = (chat_catch err, calls)) \<and>
      (llm_configured e \<longrightarrow>
         (\<exists>v cs. callLLM e w m (fst (build_context w m)) = (Inr v, cs) \<and>
            chat e w (Some m) =
              (if truthy v then (Response 200 (Reply v), snd (build_context w m) @ cs)
               else (chat_catch err, snd (build_context w m) @ cs @ calls))))"
    using chat_fallback_failed [of e m w err calls] by blast
  from a b c chat_catch_error_object [of err] chat_catch_not_reply [of err] show ?thesis
    by blast
qed

theorem catalog_failures_witness:
  "test_i product_words ''products'' \<and>
   catalog (provider_says (HttpResponse 200 answer)) (GetProducts 10) = Inl unavailable \<and>
   build_context (provider_says (HttpResponse 200 answer)) ''products'' =
     (base_context, [CatalogCall (GetProducts 10)]) \<and>
   chat with_openai (provider_says (HttpResponse 200 answer)) (Some ''products'') =
     (Response 200 (Reply (JStr ''Hello!'')),
      [CatalogCall (GetProducts 10),
       LLMCall (openai_request None ''sk-test'' ''products'' base_context)]) \<and>
   first_match (query_flags ''products'') = GenericProduct \<and>
   catalog (provider_says NetworkFailure) (GetProducts 5) = Inl unavailable \<and>
   fallback (provider_says NetworkFailure) ''products'' =
     (Inl unavailable, [CatalogCall (GetProducts 5)]) \<and>
   chat rules_only (provider_says NetworkFailure) (Some ''products'') =
     (chat_catch unavailable, [CatalogCall (GetProducts 5)]) \<and>
   chat with_openai (provider_says NetworkFailure) (Some ''products'') =
     (chat_catch unavailable,
      [CatalogCall (GetProducts 10),
       LLMCall (openai_request None ''sk-test'' ''products'' base_context),
       CatalogCall (GetProducts 5)]) \<and>
   first_match (query_flags ''beauty products'') = GenericProduct \<and>
   fallback (provider_says NetworkFailure) ''beauty products'' =
     (Inl unavailable, [CatalogCall GetCustomCollections])"
proof -
  let ?w = "provider_says (HttpResponse 200 answer)"
  let ?n = "provider_says NetworkFailure"
  note t = catalog_failures [of "''products''" ?w unavailable with_openai]
  have h: "test_i product_words ''products'' \<and> catalog ?w (GetProducts 10) = Inl unavailable"
    by (simp add: products_message provider_says_facts)
  have c: "shopify with_openai \<and> llm_configured with_openai \<and> ''products'' \<noteq> []"
    by (simp add: with_openai_facts)
  from t [THEN conjunct1, rule_format, OF h]
  have b: "build_context ?w ''products'' = (base_context, [CatalogCall (GetProducts 10)])"
    and "shopify with_openai \<and> llm_configured with_openai \<and> ''products'' \<noteq> [] \<longrightarrow>
         (\<exists>v cs. callLLM with_openai ?w ''products'' base_context = (Inr v, cs) \<and>
            (truthy v \<longrightarrow>
               chat with_openai ?w (Some ''products'') =
                 (Response 200 (Reply v), CatalogCall (GetProducts 10) # cs)) \<and>
            (\<not> truthy v \<longrightarrow>
               chat with_openai ?w (Some ''products'') =
                 (case fallback ?w ''products'' of
                    (Inl err', cs') \<Rightarrow> (chat_catch err', CatalogCall (GetProducts 10) # cs @ cs')
                  | (Inr r, cs') \<Rightarrow> (r, CatalogCall (GetProducts 10) # cs @ cs'))))"
    by blast+
  with c have a: "chat with_openai ?w (Some ''products'') =
     (Response 200 (Reply (JStr ''Hello!'')),
      [CatalogCall (GetProducts 10),
       LLMCall (openai_request None ''sk-test'' ''products'' base_context)])"
    by (auto simp: with_openai_answered truthy_def)
  have g: "first_match (query_flags ''products'') = GenericProduct"
    by (simp add: first_match_eq products_flags)
  have f: "catalog ?n (GetProducts 5) = Inl unavailable"
    by (simp add: provider_says_facts)
  have n: "\<not> beautyCollectionQuery ''products'' \<and> \<not> kitchenCollectionQuery ''products'' \<and>
       catalog ?n (GetProducts 5) = Inl unavailable"
    by (simp add: products_message f)
  note u = catalog_failures [of "''products''" ?n unavailable rules_only
      _ _ _ "[CatalogCall (GetProducts 5)]"]
  from u [THEN conjunct2, THEN conjunct1, rule_format, OF g, THEN conjunct2, THEN conjunct1,
      rule_format, OF n]
  have k: "fallback ?n ''products'' = (Inl unavailable, [CatalogCall (GetProducts 5)])" .
  have r: "shopify rules_only \<and> ''products'' \<noteq> [] \<and>
    fallback ?n ''products'' = (Inl unavailable, [CatalogCall (GetProducts 5)])"
    by (simp add: rules_only_facts k)
  from u [THEN conjunct2, THEN conjunct2, THEN conjunct1, rule_format, OF r, THEN conjunct1,
      rule_format, OF rules_only_facts(2)]
  have d: "chat rules_only ?n (Some ''products'') =
     (chat_catch unavailable, [CatalogCall (GetProducts 5)])" .
  note x = catalog_failures [of "''products''" ?n unavailable with_openai
      _ _ _ "[CatalogCall (GetProducts 5)]"]
  have o: "shopify with_openai \<and> ''products'' \<noteq> [] \<and>
    fallback ?n ''products'' = (Inl unavailable, [CatalogCall (GetProducts 5)])"
    by (simp add: with_openai_facts k)
  have bn: "build_context ?n ''products'' = (base_context, [CatalogCall (GetProducts 10)])"
    by (simp add: build_context_failed products_message provider_says_facts)
  have ln: "callLLM with_openai ?n ''products'' base_context =
      (Inr JNull, [LLMCall (openai_request None ''sk-test'' ''products'' base_context)])"
    by (simp add: callLLM_eq with_openai_facts provider_says_facts lower_openai requestConfig_def)
  from x [THEN conjunct2, THEN conjunct2, THEN conjunct1, rule_format, OF o, THEN conjunct2,
      rule_format, OF with_openai_facts(2)]
  have s: "chat with_openai ?n (Some ''products'') =
     (chat_catch unavailable,
      [CatalogCall (GetProducts 10),
       LLMCall (openai_request None ''sk-test'' ''products'' base_context),
       CatalogCall (GetProducts 5)])"
    by (auto simp: bn ln truthy_def)
  have gb: "first_match (query_flags ''beauty products'') = GenericProduct"
    by (simp add: first_match_eq beauty_products_flags)
  have nb: "(beautyCollectionQuery ''beauty products'' \<or> kitchenCollectionQuery ''beauty products'') \<and>
       catalog ?n GetCustomCollections = Inl unavailable"
    by (simp add: beauty_products_collection provider_says_facts)
  from catalog_failures [of "''beauty products''" ?n unavailable rules_only,
      THEN conjunct2, THEN conjunct1, rule_format, OF gb, THEN conjunct1, rule_format, OF nb]
  have q: "fallback ?n ''beauty products'' = (Inl unavailable, [CatalogCall GetCustomCollections])" .
  from h b a g f k d s gb q show ?thesis by (intro conjI) simp_all
qed

text \<open>
  The claim fails when the product lookup of the fallback fails: the response is an error
  object with an error status, not a reply.
\<close>

theorem fallback_catalog_failure_is_error_response:
  "first_match (query_flags ''products'') = GenericProduct \<and>
   catalog (provider_says NetworkFailure) (GetProducts 5) = Inl unavailable \<and>
   chat rules_only (provider_says NetworkFailure) (Some ''products'') =
     (Response 500 (ErrorObject ''Service Unavailable'' None (Some ''ShopifyAPIError'')),
      [CatalogCall (GetProducts 5)])"
proof -
  have "first_match (query_flags ''products'') = GenericProduct"
    by (simp add: first_match_eq products_flags)
  moreover have "catalog (provider_says NetworkFailure) (GetProducts 5) = Inl unavailable"
    by (simp add: provider_says_facts)
  moreover have "chat rules_only (provider_says NetworkFailure) (Some ''products'') =
     (Response 500 (ErrorObject ''Service Unavailable'' None (Some ''ShopifyAPIError'')),
      [CatalogCall (GetProducts 5)])"
    by (simp add: chat_without_llm rules_only_facts fallback_def respond_def products_flags
          product_query_eq find_collection_eq fetch_products_eq products_message
          provider_says_facts chat_catch_unavailable)
  ultimately show ?thesis by (intro conjI)
qed

subsection \<open>The products in the LLM context\<close>











subsection \<open>The Gold Eye Mask flag\<close>

text \<open>
  C10. The flag \<open>isGoldEyeMaskQuery\<close> is computed and never consulted: the reply does not
  depend on it, and a message that matches the Gold Eye Mask vocabulary and no other
  vocabulary gets the default reply, without any outbound call.
\<close>

theorem gold_eye_mask_flag_unused:
  "respond w message (f\<lparr>isGoldEyeMaskQuery := b\<rparr>) = respond w message f \<and>
   (isGoldEyeMaskQuery (query_flags message) \<and>
    \<not> isFaqQuery (query_flags message) \<and> \<not> isRefundQuery (query_flags message) \<and>
    \<not> isShippingQuery (query_flags message) \<and> \<not> isPrivacyQuery (query_flags message) \<and>
    \<not> isTermsQuery (query_flags message) \<and> \<not> isContactQuery (query_flags message) \<and>
    \<not> isSocialMediaQuery (query_flags message) \<and> \<not> isRewardsQuery (query_flags message) \<and>
    \<not> isSpecificProductQuery (query_flags message) \<and> \<not> isProductQuery (query_flags message)
    \<longrightarrow> fallback w message = (Inr (Response 200 (Reply (JStr default_reply))), []))"
  by (simp add: respond_def fallback_def ok_eq)

theorem gold_eye_mask_flag_unused_witness:
  "isGoldEyeMaskQuery (query_flags ''Do you sell the 24K Gold Eye Mask?'') \<and>
   fallback shop ''Do you sell the 24K Gold Eye Mask?'' =
     (Inr (Response 200 (Reply (JStr default_reply))), []) \<and>
   isGoldEyeMaskQuery (query_flags ''Puffiness'') \<and>
   fallback shop ''Puffiness'' = (Inr (Response 200 (Reply (JStr default_reply))), [])"
proof -
  have a: "isGoldEyeMaskQuery (query_flags ''Do you sell the 24K Gold Eye Mask?'') \<and>
    \<not> isFaqQuery (query_flags ''Do you sell the 24K Gold Eye Mask?'') \<and>
    \<not> isRefundQuery (query_flags ''Do you sell the 24K Gold Eye Mask?'') \<and>
    \<not> isShippingQuery (query_flags ''Do you sell the 24K Gold Eye Mask?'') \<and>
    \<not> isPrivacyQuery (query_flags ''Do you sell the 24K Gold Eye Mask?'') \<and>
    \<not> isTermsQuery (query_flags ''Do you sell the 24K Gold Eye Mask?'') \<and>
    \<not> isContactQuery (query_flags ''Do you sell the 24K Gold Eye Mask?'') \<and>
    \<not> isSocialMediaQuery (query_flags ''Do you sell the 24K Gold Eye Mask?'') \<and>
    \<not> isRewardsQuery (query_flags ''Do you sell the 24K Gold Eye Mask?'') \<and>
    \<not> isSpecificProductQuery (query_flags ''Do you sell the 24K Gold Eye Mask?'') \<and>
    \<not> isProductQuery (query_flags ''Do you sell the 24K Gold Eye Mask?'')"
    by (simp add: gold_mask_flags)
  have b: "isGoldEyeMaskQuery (query_flags ''Puffiness'') \<and>
    \<not> isFaqQuery (query_flags ''Puffiness'') \<and> \<not> isRefundQuery (query_flags ''Puffiness'') \<and>
    \<not> isShippingQuery (query_flags ''Puffiness'') \<and> \<not> isPrivacyQuery (query_flags ''Puffiness'') \<and>
    \<not> isTermsQuery (query_flags ''Puffiness'') \<and> \<not> isContactQuery (query_flags ''Puffiness'') \<and>
    \<not> isSocialMediaQuery (query_flags ''Puffiness'') \<and> \<not> isRewardsQuery (query_flags ''Puffiness'') \<and>
    \<not> isSpecificProductQuery (query_flags ''Puffiness'') \<and> \<not> isProductQuery (query_flags ''Puffiness'')"
    by (simp add: puffiness_flags)
  from a b
    gold_eye_mask_flag_unused [of shop "''Do you sell the 24K Gold Eye Mask?''"]
    gold_eye_mask_flag_unused [of shop "''Puffiness''"]
  show ?thesis by blast
qed


end
